theory Spec2Isabelle
  imports Complex_Main
begin

section \<open>Numbers, vectors, quaternions and matrices\<close>

text \<open>
  The cube core (core.cpp, with the declarations of core.h) computes with \<open>int\<close>,
  \<open>float\<close> and the GLM types \<open>ivec3\<close>, \<open>vec3\<close>, \<open>quat\<close> and \<open>mat4\<close>.
  Integers are modelled as \<open>int\<close> (every value the core stores is a small integer), and
  single-precision floats as \<open>real\<close>. The arithmetic of the vectors, quaternions and
  matrices is exact. The tick, whose completion test compares rounded numbers with a
  threshold, is embedded twice: with exact arithmetic, and with the rounding of every
  operation explicit (section The tick in single precision). One more float effect that
  the core can reach from its public interface is kept as a value of its own:
  normalising the zero vector multiplies \<open>0\<close> by \<open>inversesqrt 0 = +inf\<close> and yields NaN
  components. A vector, quaternion or matrix with NaN components is \<open>None\<close>, and converting
  NaN to \<open>int\<close> (undefined behaviour in C++) makes the enclosing operation return
  \<open>None\<close>, except in the second embedding of the tick, which is total.

  The GLM functions below follow the GLM definitions (\<open>glm::dot\<close>, \<open>glm::cross\<close>,
  \<open>glm::normalize\<close>, \<open>glm::angleAxis\<close>, \<open>quat * vec3\<close>, \<open>glm::toMat4\<close>,
  \<open>glm::translate\<close>, \<open>glm::scale\<close>, \<open>mat4 * mat4\<close>, \<open>glm::radians\<close>,
  \<open>glm::round\<close>, \<open>glm::clamp\<close>); a \<open>mat4\<close> is a tuple of its four columns and a
  quaternion is \<open>(w, x, y, z)\<close>.
\<close>

type_synonym vec3 = "real \<times> real \<times> real"
type_synonym ivec3 = "int \<times> int \<times> int"
type_synonym vec4 = "real \<times> real \<times> real \<times> real"
type_synonym mat4 = "vec4 \<times> vec4 \<times> vec4 \<times> vec4"
type_synonym quat = "real \<times> real \<times> real \<times> real"

fun vec3_of_ivec3 :: "ivec3 \<Rightarrow> vec3" where
  "vec3_of_ivec3 (x, y, z) = (of_int x, of_int y, of_int z)"

fun vscale :: "vec3 \<Rightarrow> real \<Rightarrow> vec3" where
  "vscale (x, y, z) k = (x * k, y * k, z * k)"

fun vadd :: "vec3 \<Rightarrow> vec3 \<Rightarrow> vec3" where
  "vadd (x, y, z) (x', y', z') = (x + x', y + y', z + z')"

fun vneg :: "vec3 \<Rightarrow> vec3" where
  "vneg (x, y, z) = (- x, - y, - z)"

fun glm_dot :: "vec3 \<Rightarrow> vec3 \<Rightarrow> real" where
  "glm_dot (x, y, z) (x', y', z') = x * x' + y * y' + z * z'"

fun glm_cross :: "vec3 \<Rightarrow> vec3 \<Rightarrow> vec3" where
  "glm_cross (x, y, z) (x', y', z') =
     (y * z' - y' * z, z * x' - z' * x, x * y' - x' * y)"

definition glm_length :: "vec3 \<Rightarrow> real" where
  "glm_length v = sqrt (glm_dot v v)"

definition glm_normalize :: "vec3 \<Rightarrow> vec3 option" where
  \<comment> \<open>\<open>v * inversesqrt(dot(v, v))\<close>; for the zero vector that is \<open>0 * inf\<close>, NaN.\<close>
  "glm_normalize v =
     (if glm_dot v v = 0 then None else Some (vscale v (1 / sqrt (glm_dot v v))))"

definition glm_radians :: "real \<Rightarrow> real" where
  "glm_radians degrees = degrees * (pi / 180)"

definition glm_clamp :: "real \<Rightarrow> real \<Rightarrow> real \<Rightarrow> real" where
  "glm_clamp x lo hi = min (max x lo) hi"

definition glm_round :: "real \<Rightarrow> real" where
  \<comment> \<open>nearest integer, halves away from zero\<close>
  "glm_round x = (if x < 0 then of_int \<lceil>x - 1 / 2\<rceil> else of_int \<lfloor>x + 1 / 2\<rfloor>)"

definition int_of_float :: "real \<Rightarrow> int" where
  \<comment> \<open>the C cast \<open>(int)x\<close>: truncation towards zero\<close>
  "int_of_float x = (if x < 0 then \<lceil>x\<rceil> else \<lfloor>x\<rfloor>)"

definition glm_angleAxis :: "real \<Rightarrow> vec3 \<Rightarrow> quat" where
  "glm_angleAxis angle v =
     (case vscale v (sin (angle * (1 / 2))) of (x, y, z) \<Rightarrow> (cos (angle * (1 / 2)), x, y, z))"

fun quat_rotate :: "quat \<Rightarrow> vec3 \<Rightarrow> vec3" where
  "quat_rotate (w, x, y, z) v =
     (let uv = glm_cross (x, y, z) v;
          uuv = glm_cross (x, y, z) uv
      in vadd v (vscale (vadd (vscale uv w) uuv) 2))"

fun v4scale :: "vec4 \<Rightarrow> real \<Rightarrow> vec4" where
  "v4scale (x, y, z, w) k = (x * k, y * k, z * k, w * k)"

fun v4add :: "vec4 \<Rightarrow> vec4 \<Rightarrow> vec4" where
  "v4add (x, y, z, w) (x', y', z', w') = (x + x', y + y', z + z', w + w')"

fun mat_vec :: "mat4 \<Rightarrow> vec4 \<Rightarrow> vec4" where
  "mat_vec (c0, c1, c2, c3) (x, y, z, w) =
     v4add (v4add (v4add (v4scale c0 x) (v4scale c1 y)) (v4scale c2 z)) (v4scale c3 w)"

fun mat_mul :: "mat4 \<Rightarrow> mat4 \<Rightarrow> mat4" where
  "mat_mul m (d0, d1, d2, d3) = (mat_vec m d0, mat_vec m d1, mat_vec m d2, mat_vec m d3)"

definition mat_identity :: mat4 where
  "mat_identity = ((1, 0, 0, 0), (0, 1, 0, 0), (0, 0, 1, 0), (0, 0, 0, 1))"

fun glm_translate :: "mat4 \<Rightarrow> vec3 \<Rightarrow> mat4" where
  "glm_translate (c0, c1, c2, c3) (x, y, z) =
     (c0, c1, c2, v4add (v4add (v4add (v4scale c0 x) (v4scale c1 y)) (v4scale c2 z)) c3)"

fun glm_scale :: "mat4 \<Rightarrow> vec3 \<Rightarrow> mat4" where
  "glm_scale (c0, c1, c2, c3) (x, y, z) = (v4scale c0 x, v4scale c1 y, v4scale c2 z, c3)"

fun glm_toMat4 :: "quat \<Rightarrow> mat4" where
  "glm_toMat4 (w, x, y, z) =
     ((1 - 2 * (y * y + z * z), 2 * (x * y + w * z), 2 * (x * z - w * y), 0),
      (2 * (x * y - w * z), 1 - 2 * (x * x + z * z), 2 * (y * z + w * x), 0),
      (2 * (x * z + w * y), 2 * (y * z - w * x), 1 - 2 * (x * x + y * y), 0),
      (0, 0, 0, 1))"

section \<open>The data model (core.h)\<close>

record Sticker =
  cubePos :: ivec3
  normal :: ivec3
  color :: vec3
  baseModel :: "mat4 option"

record Anim =
  active :: bool
  axis :: vec3
  layer :: int
  targetAngle :: real
  currentAngle :: real
  speedDeg :: real

record Core =
  m_cubieSize :: real
  m_gap :: real
  m_spacing :: real
  m_anim :: Anim
  m_queue :: "string list"
  m_stickers :: "Sticker list"

section \<open>Construction\<close>

definition FACE_ORDER :: "char list" where
  "FACE_ORDER = [CHR ''U'', CHR ''R'', CHR ''F'', CHR ''D'', CHR ''L'', CHR ''B'']"

definition faceToColor :: "char \<Rightarrow> vec3" where
  "faceToColor face =
     (if face = CHR ''U'' then (1, 1, 1)
      else if face = CHR ''D'' then (1, 1, 0)
      else if face = CHR ''F'' then (8 / 10, 5 / 100, 5 / 100)
      else if face = CHR ''B'' then (1, 5 / 10, 0)
      else if face = CHR ''R'' then (5 / 100, 7 / 10, 5 / 100)
      else if face = CHR ''L'' then (5 / 100, 15 / 100, 9 / 10)
      else (2 / 10, 2 / 10, 2 / 10))"

definition orientation :: "vec3 \<Rightarrow> quat option" where
  \<comment> \<open>the quaternion of rebuildBaseModel that turns the z direction onto the unit normal n\<close>
  "orientation n =
     (let zDir = (0, 0, 1) in
      if glm_length (glm_cross zDir n) < 1 / 10000 then
        (if glm_dot zDir n > 0 then Some (1, 0, 0, 0)
         else Some (glm_angleAxis pi (0, 1, 0)))
      else
        map_option (glm_angleAxis (arccos (glm_clamp (glm_dot zDir n) (- 1) 1)))
          (glm_normalize (glm_cross zDir n)))"

definition baseModelOf :: "real \<Rightarrow> real \<Rightarrow> ivec3 \<Rightarrow> ivec3 \<Rightarrow> mat4 option" where
  \<comment> \<open>the matrix that rebuildBaseModel stores, from m_cubieSize, m_spacing and the sticker\<close>
  "baseModelOf cubieSize spacing cp nrm =
     (let pos = vscale (vec3_of_ivec3 cp) spacing;
          offset = (1 / 2) * cubieSize + 1 / 1000;
          pos = vadd pos (vscale (vec3_of_ivec3 nrm) offset);
          stickerScale = cubieSize * (92 / 100)
      in case glm_normalize (vec3_of_ivec3 nrm) of
           None \<Rightarrow> None
         | Some n \<Rightarrow>
             (case orientation n of
                None \<Rightarrow> None
              | Some q \<Rightarrow>
                  Some (mat_mul (mat_mul (glm_translate mat_identity pos) (glm_toMat4 q))
                          (glm_scale mat_identity (stickerScale, stickerScale, 1)))))"

definition rebuildBaseModel :: "real \<Rightarrow> real \<Rightarrow> Sticker \<Rightarrow> Sticker" where
  "rebuildBaseModel cubieSize spacing s =
     s\<lparr>baseModel := baseModelOf cubieSize spacing (cubePos s) (normal s)\<rparr>"

definition faceNormal :: "char \<Rightarrow> ivec3 \<times> int" where
  \<comment> \<open>the normal and fixCoord that buildInitialStickers assigns for a face\<close>
  "faceNormal face =
     (let r = ((0, 0, 0), 0);
          r = (if face = CHR ''U'' then ((0, 1, 0), 1) else r);
          r = (if face = CHR ''D'' then ((0, - 1, 0), - 1) else r);
          r = (if face = CHR ''F'' then ((0, 0, 1), 1) else r);
          r = (if face = CHR ''B'' then ((0, 0, - 1), - 1) else r);
          r = (if face = CHR ''R'' then ((1, 0, 0), 1) else r);
          r = (if face = CHR ''L'' then ((- 1, 0, 0), - 1) else r)
      in r)"

definition initialPos :: "char \<Rightarrow> int \<Rightarrow> int \<Rightarrow> ivec3" where
  "initialPos face a b =
     (let fixCoord = snd (faceNormal face) in
      if face = CHR ''U'' \<or> face = CHR ''D'' then (a, fixCoord, - b)
      else if face = CHR ''F'' \<or> face = CHR ''B'' then (a, - b, fixCoord)
      else (fixCoord, - b, a))"

definition initialSticker :: "real \<Rightarrow> real \<Rightarrow> char \<Rightarrow> int \<Rightarrow> int \<Rightarrow> Sticker" where
  "initialSticker cubieSize spacing face a b =
     rebuildBaseModel cubieSize spacing
       \<lparr>cubePos = initialPos face a b, normal = fst (faceNormal face),
        color = faceToColor face, baseModel = None\<rparr>"

definition buildInitialStickers :: "real \<Rightarrow> real \<Rightarrow> Sticker list" where
  "buildInitialStickers cubieSize spacing =
     concat (map (\<lambda>face.
       concat (map (\<lambda>a. map (\<lambda>b. initialSticker cubieSize spacing face a b) [- 1, 0, 1])
         [- 1, 0, 1])) FACE_ORDER)"

definition Core_new :: "real \<Rightarrow> real \<Rightarrow> real \<Rightarrow> Core" where
  "Core_new cubieSize gap animSpeedDegPerSec =
     \<lparr>m_cubieSize = cubieSize, m_gap = gap, m_spacing = cubieSize + gap,
      m_anim = \<lparr>active = False, axis = (0, 0, 0), layer = 0, targetAngle = 0,
                currentAngle = 0, speedDeg = animSpeedDegPerSec\<rparr>,
      m_queue = [],
      m_stickers = buildInitialStickers cubieSize (cubieSize + gap)\<rparr>"

section \<open>Move parsing\<close>

definition isspace :: "char \<Rightarrow> bool" where
  \<comment> \<open>the C locale: space, \<open>\t \n \v \f \r\<close>\<close>
  "isspace c = (let n = (of_char c :: nat) in n = 32 \<or> (9 \<le> n \<and> n \<le> 13))"

definition toupper :: "char \<Rightarrow> char" where
  \<comment> \<open>the C locale: only \<open>a..z\<close> change\<close>
  "toupper c =
     (let n = (of_char c :: nat) in if 97 \<le> n \<and> n \<le> 122 then char_of (n - 32) else c)"

fun strchr :: "string \<Rightarrow> char \<Rightarrow> nat option" where
  \<comment> \<open>the offset of the first match; the terminating NUL of the C string is part of it\<close>
  "strchr [] c = (if c = CHR 0x00 then Some 0 else None)"
| "strchr (x # xs) c = (if x = c then Some 0 else map_option Suc (strchr xs c))"

definition char_at :: "string \<Rightarrow> nat \<Rightarrow> char" where
  \<comment> \<open>\<open>s[i]\<close> of a std::string for \<open>i \<le> size\<close>: \<open>s[size]\<close> is the NUL character\<close>
  "char_at s i = (if i < length s then s ! i else CHR 0x00)"

definition parseMove :: "string \<Rightarrow> (char \<times> int \<times> bool) option" where
  "parseMove move =
     (if move = [] then None
      else
        let s = filter (\<lambda>c. \<not> isspace c) move;
            face = toupper (char_at s 0)
        in if strchr ''UDLRFB'' face = None then None
           else
             let amount = (1 :: int);
                 prime = False;
                 (amount, prime) =
                   (if length s \<ge> 2 then
                      (if s ! 1 = CHR ''2'' then (2, prime)
                       else if s ! 1 = CHR 0x27 then (amount, True)
                       else (amount, prime))
                    else (amount, prime));
                 prime =
                   (if length s \<ge> 3 then
                      (if s ! 1 = CHR ''2'' \<and> s ! 2 = CHR 0x27 then True else prime)
                    else prime)
             in Some (face, amount, prime))"

section \<open>Starting moves and the queue\<close>

definition startParsedMove :: "char \<Rightarrow> int \<Rightarrow> bool \<Rightarrow> Core \<Rightarrow> Core" where
  "startParsedMove face amount prime c =
     (let al = ((0, 0, 0), 0 :: int);
          al = (if face = CHR ''U'' then ((0, 1, 0), 1) else al);
          al = (if face = CHR ''D'' then ((0, 1, 0), - 1) else al);
          al = (if face = CHR ''F'' then ((0, 0, 1), 1) else al);
          al = (if face = CHR ''B'' then ((0, 0, 1), - 1) else al);
          al = (if face = CHR ''R'' then ((1, 0, 0), 1) else al);
          al = (if face = CHR ''L'' then ((1, 0, 0), - 1) else al);
          angle = 90 * of_int amount;
          angle = (if prime then - angle else angle);
          angle = (if amount = 2 then 180 * (if prime then 1 else 1) else angle)
      in c\<lparr>m_anim := (m_anim c)\<lparr>active := True, axis := fst al, layer := snd al,
                                targetAngle := angle, currentAngle := 0\<rparr>\<rparr>)"

definition queueMove :: "string \<Rightarrow> Core \<Rightarrow> bool \<times> Core" where
  "queueMove move c =
     (case parseMove move of
        None \<Rightarrow> (False, c)
      | Some _ \<Rightarrow> (True, c\<lparr>m_queue := m_queue c @ [move]\<rparr>))"

definition startMoveImmediate :: "string \<Rightarrow> Core \<Rightarrow> bool \<times> Core" where
  "startMoveImmediate move c =
     (let c = c\<lparr>m_queue := []\<rparr> in
      case parseMove move of
        None \<Rightarrow> (False, c)
      | Some (face, amount, prime) \<Rightarrow> (True, startParsedMove face amount prime c))"

definition startNextInQueue :: "Core \<Rightarrow> Core" where
  "startNextInQueue c =
     (if active (m_anim c) then c
      else case m_queue c of
        [] \<Rightarrow> c
      | mv # rest \<Rightarrow>
          (let c = c\<lparr>m_queue := rest\<rparr> in
           case parseMove mv of
             None \<Rightarrow> c
           | Some (face, amount, prime) \<Rightarrow> startParsedMove face amount prime c))"

definition isAnimating :: "Core \<Rightarrow> bool" where
  "isAnimating c = active (m_anim c)"

definition clearQueue :: "Core \<Rightarrow> Core" where
  "clearQueue c = c\<lparr>m_queue := []\<rparr>"

section \<open>Discrete rotation and the animation tick\<close>

definition layerCoord :: "vec3 \<Rightarrow> ivec3 \<Rightarrow> int" where
  \<comment> \<open>the sticker coordinate along the rotation axis\<close>
  "layerCoord ax cp =
     (case (ax, cp) of
        ((ax_x, ax_y, ax_z), (x, y, z)) \<Rightarrow>
          if \<bar>ax_x\<bar> > 1 / 2 then x else if \<bar>ax_y\<bar> > 1 / 2 then y else z)"

definition rotate_ivec3 :: "quat \<Rightarrow> ivec3 \<Rightarrow> ivec3" where
  \<comment> \<open>\<open>glm::round(q * vec3(v))\<close>, each component cast back to int\<close>
  "rotate_ivec3 q v =
     (case quat_rotate q (vec3_of_ivec3 v) of
        (x, y, z) \<Rightarrow>
          (int_of_float (glm_round x), int_of_float (glm_round y), int_of_float (glm_round z)))"

definition rotateSticker :: "quat option \<Rightarrow> vec3 \<Rightarrow> int \<Rightarrow> Sticker \<Rightarrow> Sticker option" where
  \<comment> \<open>one pass of the first loop of applyRotationDiscrete\<close>
  "rotateSticker q ax lay s =
     (if layerCoord ax (cubePos s) \<noteq> lay then Some s
      else case q of
        None \<Rightarrow> None
      | Some q \<Rightarrow> Some (s\<lparr>cubePos := rotate_ivec3 q (cubePos s),
                           normal := rotate_ivec3 q (normal s)\<rparr>))"

fun rotateStickers :: "quat option \<Rightarrow> vec3 \<Rightarrow> int \<Rightarrow> Sticker list \<Rightarrow> Sticker list option" where
  "rotateStickers q ax lay [] = Some []"
| "rotateStickers q ax lay (s # ss) =
     (case rotateSticker q ax lay s of
        None \<Rightarrow> None
      | Some s' \<Rightarrow> map_option ((#) s') (rotateStickers q ax lay ss))"

definition applyRotationDiscrete :: "vec3 \<Rightarrow> int \<Rightarrow> real \<Rightarrow> Core \<Rightarrow> Core option" where
  "applyRotationDiscrete ax lay angleDeg c =
     (let a = glm_normalize ax;
          rad = glm_radians angleDeg;
          q = map_option (glm_angleAxis rad) a
      in case rotateStickers q ax lay (m_stickers c) of
           None \<Rightarrow> None
         | Some ss \<Rightarrow>
             Some (c\<lparr>m_stickers := map (rebuildBaseModel (m_cubieSize c) (m_spacing c)) ss\<rparr>))"

definition update :: "real \<Rightarrow> Core \<Rightarrow> Core option" where
  "update deltaSeconds c =
     (let an = m_anim c in
      if active an then
        (let step = speedDeg an * deltaSeconds;
             remaining = \<bar>targetAngle an - currentAngle an\<bar>;
             take = min step remaining;
             cur = currentAngle an + (if targetAngle an \<ge> 0 then 1 else - 1) * take;
             c = c\<lparr>m_anim := an\<lparr>currentAngle := cur\<rparr>\<rparr>
         in if \<bar>\<bar>cur\<bar> - \<bar>targetAngle an\<bar>\<bar> < 1 / 1000 \<or> remaining \<le> 1 / 10000 then
              (case applyRotationDiscrete (axis an) (layer an) (targetAngle an) c of
                 None \<Rightarrow> None
               | Some c \<Rightarrow>
                   Some (startNextInQueue
                     (c\<lparr>m_anim := (m_anim c)\<lparr>active := False, currentAngle := 0\<rparr>\<rparr>)))
            else Some c)
      else if m_queue c \<noteq> [] then Some (startNextInQueue c)
      else Some c)"

section \<open>Queries\<close>

definition getStickerModelMatrices :: "Core \<Rightarrow> mat4 option list" where
  "getStickerModelMatrices c =
     (let an = m_anim c;
          anim = active an;
          q_anim = (if anim
                    then map_option (glm_angleAxis (glm_radians (currentAngle an)))
                           (glm_normalize (axis an))
                    else Some (1, 0, 0, 0));
          axisCenter = (if anim
                        then vscale (vscale (axis an) (of_int (layer an))) (m_spacing c)
                        else (0, 0, 0))
      in map (\<lambda>s.
           if \<not> anim then baseModel s
           else if layerCoord (axis an) (cubePos s) \<noteq> layer an then baseModel s
           else
             (case (q_anim, baseModel s) of
                (Some q, Some M) \<Rightarrow>
                  (let T1 = glm_translate mat_identity axisCenter;
                       R = glm_toMat4 q;
                       T2 = glm_translate mat_identity (vneg axisCenter)
                   in Some (mat_mul (mat_mul (mat_mul T1 R) T2) M))
              | _ \<Rightarrow> None))
         (m_stickers c))"

definition getStickerColors :: "Core \<Rightarrow> vec3 list" where
  "getStickerColors c = map color (m_stickers c)"

section \<open>Operation sequences\<close>

text \<open>The state-changing operations of the public interface.\<close>

datatype operation =
  Update real
| QueueMove string
| StartMoveImmediate string
| ClearQueue

text \<open>
  A move played to completion: the move starts (startParsedMove) and the finishing branch of
  \<open>update\<close> applies the discrete rotation with the animation's axis, layer and target
  angle and deactivates the animation.
\<close>

definition playMove :: "char \<Rightarrow> int \<Rightarrow> bool \<Rightarrow> Core \<Rightarrow> Core option" where
  "playMove face amount prime c =
     (let c = startParsedMove face amount prime c;
          an = m_anim c
      in case applyRotationDiscrete (axis an) (layer an) (targetAngle an) c of
           None \<Rightarrow> None
         | Some c \<Rightarrow> Some (c\<lparr>m_anim := (m_anim c)\<lparr>active := False, currentAngle := 0\<rparr>\<rparr>))"

fun playMoves :: "(char \<times> int \<times> bool) list \<Rightarrow> Core \<Rightarrow> Core option" where
  "playMoves [] c = Some c"
| "playMoves ((face, amount, prime) # ms) c =
     (case playMove face amount prime c of None \<Rightarrow> None | Some c' \<Rightarrow> playMoves ms c')"

section \<open>Notions of the specification\<close>

definition isFaceLetter :: "char \<Rightarrow> bool" where
  "isFaceLetter ch = (ch \<in> set ''UDLRFB'')"

text \<open>The symbols of the pattern \<open>[UDLRFB]('|2)?\<close>.\<close>

fun matchesPattern :: "string \<Rightarrow> bool" where
  "matchesPattern [f] = isFaceLetter f"
| "matchesPattern [f, m] = (isFaceLetter f \<and> (m = CHR 0x27 \<or> m = CHR ''2''))"
| "matchesPattern _ = False"

definition stripped :: "string \<Rightarrow> string" where
  "stripped move = filter (\<lambda>c. \<not> isspace c) move"

text \<open>A parsed move that names a face: what parseMove returns for a face letter.\<close>

definition validMove :: "char \<times> int \<times> bool \<Rightarrow> bool" where
  "validMove m =
     (case m of (face, amount, prime) \<Rightarrow> isFaceLetter face \<and> (amount = 1 \<or> amount = 2))"

definition directions :: "ivec3 list" where
  "directions = [(1, 0, 0), (- 1, 0, 0), (0, 1, 0), (0, - 1, 0), (0, 0, 1), (0, 0, - 1)]"

definition normalCount :: "ivec3 \<Rightarrow> Core \<Rightarrow> nat" where
  "normalCount n c = length (filter (\<lambda>s. normal s = n) (m_stickers c))"

definition partitioned :: "Core \<Rightarrow> bool" where
  "partitioned c =
     (length (m_stickers c) = 54 \<and> list_all (\<lambda>n. normalCount n c = 9) directions)"

section \<open>Exact quarter turns on integer vectors\<close>

text \<open>
  The position and normal of a sticker, the quarter turn about the coordinate axis \<open>i\<close>
  (0, 1, 2 for x, y, z) that the quaternion rotation computes for the angles of a move, and
  the effect of a move on a sticker's position and normal.
\<close>

definition key :: "Sticker \<Rightarrow> ivec3 \<times> ivec3" where
  "key s = (cubePos s, normal s)"

fun quarterTurn :: "nat \<Rightarrow> ivec3 \<Rightarrow> ivec3" where
  "quarterTurn 0 (x, y, z) = (x, - z, y)"
| "quarterTurn (Suc 0) (x, y, z) = (z, y, - x)"
| "quarterTurn (Suc (Suc i)) (x, y, z) = (- y, x, z)"

fun coordAlong :: "nat \<Rightarrow> ivec3 \<Rightarrow> int" where
  "coordAlong 0 (x, y, z) = x"
| "coordAlong (Suc 0) (x, y, z) = y"
| "coordAlong (Suc (Suc i)) (x, y, z) = z"

definition turnKey :: "nat \<Rightarrow> int \<Rightarrow> ivec3 \<times> ivec3 \<Rightarrow> ivec3 \<times> ivec3" where
  "turnKey i lay k =
     (if coordAlong i (fst k) = lay then (quarterTurn i (fst k), quarterTurn i (snd k)) else k)"

definition unitAxis :: "nat \<Rightarrow> vec3" where
  "unitAxis i = (if i = 0 then (1, 0, 0) else if i = 1 then (0, 1, 0) else (0, 0, 1))"

definition quarters :: "real \<Rightarrow> nat" where
  "quarters angle = (if angle = 90 then 1 else if angle = 180 then 2 else 3)"

definition moveAxis :: "char \<Rightarrow> nat" where
  "moveAxis face =
     (if face = CHR ''R'' \<or> face = CHR ''L'' then 0
      else if face = CHR ''U'' \<or> face = CHR ''D'' then 1 else 2)"

definition moveLayer :: "char \<Rightarrow> int" where
  "moveLayer face =
     (if face = CHR ''U'' \<or> face = CHR ''F'' \<or> face = CHR ''R'' then 1 else - 1)"

definition moveAngle :: "int \<Rightarrow> bool \<Rightarrow> real" where
  "moveAngle amount prime = (if amount = 2 then 180 else if prime then - 90 else 90)"

definition initKeys :: "(ivec3 \<times> ivec3) list" where
  "initKeys =
     concat (map (\<lambda>face.
       concat (map (\<lambda>a. map (\<lambda>b. (initialPos face a b, fst (faceNormal face))) [- 1, 0, 1])
         [- 1, 0, 1])) FACE_ORDER)"

definition cubeInv :: "Sticker list \<Rightarrow> bool" where
  "cubeInv ss = (distinct (map key ss) \<and> set (map key ss) = set initKeys)"

section \<open>The animation tick in parts\<close>

text \<open>
  The angle that \<open>update\<close> computes for an active animation and its completion test,
  both in exact arithmetic, and the condition that the current angle lies between 0 and the
  target angle.
\<close>

definition advancedAngle :: "Anim \<Rightarrow> real \<Rightarrow> real" where
  "advancedAngle an deltaSeconds =
     currentAngle an
       + (if targetAngle an \<ge> 0 then 1 else - 1)
         * min (speedDeg an * deltaSeconds) \<bar>targetAngle an - currentAngle an\<bar>"

definition finishes :: "Anim \<Rightarrow> real \<Rightarrow> bool" where
  "finishes an deltaSeconds =
     (\<bar>\<bar>advancedAngle an deltaSeconds\<bar> - \<bar>targetAngle an\<bar>\<bar> < 1 / 1000
      \<or> \<bar>targetAngle an - currentAngle an\<bar> \<le> 1 / 10000)"

definition angleWithinTarget :: "Anim \<Rightarrow> bool" where
  "angleWithinTarget an =
     ((0 \<le> currentAngle an \<and> currentAngle an \<le> targetAngle an)
      \<or> (targetAngle an \<le> currentAngle an \<and> currentAngle an \<le> 0))"

section \<open>The tick in single precision\<close>

text \<open>
  A second embedding of \<open>update\<close> and of the discrete rotation that it calls, for the
  properties that depend on how the tick is computed. Every single-precision operation of
  \<open>update\<close> whose result need not be representable (the product, the difference, the
  sum, and the difference inside the completion test) is followed by the rounding \<open>rnd\<close>
  of its exact result; taking an absolute value, multiplying by 1 or -1, taking the minimum
  and comparing are exact. The literals \<open>1e-3f\<close> and \<open>1e-4f\<close> are the single-precision
  numbers nearest to the decimals. The rounding is a parameter: what is proved holds of
  every rounding function, so of the rounding to nearest of the machine.

  The discrete rotation is total here: where the quaternion has NaN components, the three
  components of the rotated position and of the rotated normal are NaN, and each conversion
  to \<open>int\<close> yields the value \<open>nanInt\<close>, whatever that value is in a given build (the
  most negative \<open>int\<close> on x86-64). After such a conversion the positions and normals of
  the model are not claimed to be those of a build; the colours do not depend on them.
\<close>

definition FLT_1EM3 :: real where
  "FLT_1EM3 = 8589935 / 2 ^ 33"

definition FLT_1EM4 :: real where
  "FLT_1EM4 = 13743895 / 2 ^ 37"

definition rotateStickerF :: "int \<Rightarrow> quat option \<Rightarrow> vec3 \<Rightarrow> int \<Rightarrow> Sticker \<Rightarrow> Sticker" where
  "rotateStickerF nanInt q ax lay s =
     (if layerCoord ax (cubePos s) \<noteq> lay then s
      else case q of
        None \<Rightarrow> s\<lparr>cubePos := (nanInt, nanInt, nanInt), normal := (nanInt, nanInt, nanInt)\<rparr>
      | Some q \<Rightarrow> s\<lparr>cubePos := rotate_ivec3 q (cubePos s),
                     normal := rotate_ivec3 q (normal s)\<rparr>)"

definition applyRotationDiscreteF :: "int \<Rightarrow> vec3 \<Rightarrow> int \<Rightarrow> real \<Rightarrow> Core \<Rightarrow> Core" where
  "applyRotationDiscreteF nanInt ax lay angleDeg c =
     (let a = glm_normalize ax;
          rad = glm_radians angleDeg;
          q = map_option (glm_angleAxis rad) a
      in c\<lparr>m_stickers :=
             map (rebuildBaseModel (m_cubieSize c) (m_spacing c))
               (map (rotateStickerF nanInt q ax lay) (m_stickers c))\<rparr>)"

definition updateF :: "(real \<Rightarrow> real) \<Rightarrow> int \<Rightarrow> real \<Rightarrow> Core \<Rightarrow> Core" where
  "updateF rnd nanInt deltaSeconds c =
     (let an = m_anim c in
      if active an then
        (let step = rnd (speedDeg an * deltaSeconds);
             remaining = \<bar>rnd (targetAngle an - currentAngle an)\<bar>;
             take = min step remaining;
             cur = rnd (currentAngle an + (if targetAngle an \<ge> 0 then 1 else - 1) * take);
             c = c\<lparr>m_anim := an\<lparr>currentAngle := cur\<rparr>\<rparr>
         in if \<bar>rnd (\<bar>cur\<bar> - \<bar>targetAngle an\<bar>)\<bar> < FLT_1EM3 \<or> remaining \<le> FLT_1EM4 then
              (let c = applyRotationDiscreteF nanInt (axis an) (layer an) (targetAngle an) c
               in startNextInQueue
                    (c\<lparr>m_anim := (m_anim c)\<lparr>active := False, currentAngle := 0\<rparr>\<rparr>))
            else c)
      else if m_queue c \<noteq> [] then startNextInQueue c
      else c)"

text \<open>One operation, and a sequence of operations, on this embedding.\<close>

fun performF :: "(real \<Rightarrow> real) \<Rightarrow> int \<Rightarrow> operation \<Rightarrow> Core \<Rightarrow> Core" where
  "performF rnd nanInt (Update deltaSeconds) c = updateF rnd nanInt deltaSeconds c"
| "performF rnd nanInt (QueueMove move) c = snd (queueMove move c)"
| "performF rnd nanInt (StartMoveImmediate move) c = snd (startMoveImmediate move c)"
| "performF rnd nanInt ClearQueue c = clearQueue c"

fun runF :: "(real \<Rightarrow> real) \<Rightarrow> int \<Rightarrow> operation list \<Rightarrow> Core \<Rightarrow> Core" where
  "runF rnd nanInt [] c = c"
| "runF rnd nanInt (x # xs) c = runF rnd nanInt xs (performF rnd nanInt x c)"

text \<open>
  The angle that this tick computes for an active animation, its completion test, and the
  condition that adding the whole remaining angle to the current angle gives the target
  angle after rounding.
\<close>

definition advancedAngleF :: "(real \<Rightarrow> real) \<Rightarrow> Anim \<Rightarrow> real \<Rightarrow> real" where
  "advancedAngleF rnd an deltaSeconds =
     rnd (currentAngle an
          + (if targetAngle an \<ge> 0 then 1 else - 1)
            * min (rnd (speedDeg an * deltaSeconds)) \<bar>rnd (targetAngle an - currentAngle an)\<bar>)"

definition finishesF :: "(real \<Rightarrow> real) \<Rightarrow> Anim \<Rightarrow> real \<Rightarrow> bool" where
  "finishesF rnd an deltaSeconds =
     (\<bar>rnd (\<bar>advancedAngleF rnd an deltaSeconds\<bar> - \<bar>targetAngle an\<bar>)\<bar> < FLT_1EM3
      \<or> \<bar>rnd (targetAngle an - currentAngle an)\<bar> \<le> FLT_1EM4)"

definition landsOnTarget :: "(real \<Rightarrow> real) \<Rightarrow> Anim \<Rightarrow> bool" where
  "landsOnTarget rnd an =
     (rnd (currentAngle an
           + (if targetAngle an \<ge> 0 then 1 else - 1) * \<bar>rnd (targetAngle an - currentAngle an)\<bar>)
      = targetAngle an)"

section \<open>Parsing\<close>

lemma strchr_faces:
  "strchr ''UDLRFB'' ch = None \<longleftrightarrow> \<not> isFaceLetter ch \<and> ch \<noteq> CHR 0x00"
  by (auto simp: isFaceLetter_def)

lemma toupper_face: "isFaceLetter ch \<Longrightarrow> toupper ch = ch"
  by (auto simp: isFaceLetter_def toupper_def)

lemma not_isspace_face: "isFaceLetter ch \<Longrightarrow> \<not> isspace ch"
  by (auto simp: isFaceLetter_def isspace_def)

lemma toupper_NUL: "toupper ch = CHR 0x00 \<Longrightarrow> ch = CHR 0x00"
proof (rule ccontr)
  assume t: "toupper ch = CHR 0x00" and n: "ch \<noteq> CHR 0x00"
  let ?n = "of_char ch :: nat"
  from t n have r: "97 \<le> ?n" "?n \<le> 122" and c: "char_of (?n - 32) = CHR 0x00"
    by (auto simp: toupper_def Let_def split: if_splits)
  from c have "(of_char (char_of (?n - 32) :: char) :: nat) = of_char (CHR 0x00)" by simp
  then have "(?n - 32) mod 256 = 0" by simp
  with r show False by presburger
qed

lemma parseMove_None_iff:
  "parseMove move = None \<longleftrightarrow>
     move = [] \<or> strchr ''UDLRFB'' (toupper (char_at (stripped move) 0)) = None"
  by (simp add: parseMove_def stripped_def Let_def split: prod.splits del: strchr.simps)

lemma parseMove_accept:
  assumes "move \<noteq> []" "stripped move \<noteq> []" "isFaceLetter (toupper (hd (stripped move)))"
  shows "\<exists>r. parseMove move = Some r"
proof -
  have "char_at (stripped move) 0 = hd (stripped move)"
    using assms(2) by (simp add: char_at_def hd_conv_nth)
  then have "parseMove move \<noteq> None"
    using assms by (simp add: parseMove_None_iff strchr_faces del: strchr.simps)
  then show ?thesis by auto
qed

lemma parseMove_reject:
  assumes "move = [] \<or> (stripped move \<noteq> [] \<and> \<not> isFaceLetter (toupper (hd (stripped move)))
             \<and> hd (stripped move) \<noteq> CHR 0x00)"
  shows "parseMove move = None"
proof (cases "move = []")
  case True
  then show ?thesis by (simp add: parseMove_None_iff)
next
  case False
  with assms have ne: "stripped move \<noteq> []"
    and nf: "\<not> isFaceLetter (toupper (hd (stripped move)))"
    and nz: "hd (stripped move) \<noteq> CHR 0x00" by auto
  have "char_at (stripped move) 0 = hd (stripped move)"
    using ne by (simp add: char_at_def hd_conv_nth)
  then show ?thesis
    using nf nz toupper_NUL[of "hd (stripped move)"]
    by (auto simp add: parseMove_None_iff strchr_faces simp del: strchr.simps)
qed

lemma parseMove_pattern:
  assumes "matchesPattern move"
  shows "\<exists>r. parseMove move = Some r"
proof -
  from assms obtain f ms where mv: "move = f # ms" and f: "isFaceLetter f"
    by (cases move rule: matchesPattern.cases) auto
  have "stripped move \<noteq> []" "hd (stripped move) = f"
    using not_isspace_face[OF f] by (simp_all add: mv stripped_def)
  then show ?thesis
    using parseMove_accept[of move] f mv by (simp add: toupper_face)
qed

lemma parseMove_X: "parseMove ''X'' = None"
  by (simp add: parseMove_def char_at_def toupper_def isspace_def)

lemma parseMove_R: "parseMove ''R'' = Some (CHR ''R'', 1, False)"
  by (simp add: parseMove_def char_at_def toupper_def isspace_def)

lemma toupper_lower:
  "toupper (CHR ''u'') = CHR ''U''" "toupper (CHR ''f'') = CHR ''F''"
  "toupper (CHR ''x'') = CHR ''X''"
  by (simp_all add: toupper_def char_of_eq_iff)

lemma toupper_X: "toupper (CHR ''X'') = CHR ''X''"
  by (simp add: toupper_def)

lemma parseMove_u: "parseMove ''u'' = Some (CHR ''U'', 1, False)"
  by (simp add: parseMove_def char_at_def toupper_lower isspace_def)

lemma parseMove_result:
  assumes "parseMove s = Some (face, amount, prime)"
  shows "(isFaceLetter face \<or> face = CHR 0x00) \<and> (amount = 1 \<or> amount = 2)"
proof -
  from assms have "parseMove s \<noteq> None" by simp
  then have n: "strchr ''UDLRFB'' (toupper (char_at (stripped s) 0)) \<noteq> None"
    by (simp add: parseMove_None_iff)
  from assms have f: "face = toupper (char_at (stripped s) 0)"
    and a: "amount = 1 \<or> amount = 2"
    by (auto simp: parseMove_def stripped_def Let_def split: if_splits prod.splits
        simp del: strchr.simps)
  from n f show ?thesis using a by (auto simp: strchr_faces simp del: strchr.simps)
qed

text \<open>Every move that parseMove returns for a face other than NUL is a valid move.\<close>

lemma parseMove_validMove:
  "parseMove s = Some m \<Longrightarrow> fst m \<noteq> CHR 0x00 \<Longrightarrow> validMove m"
  using parseMove_result[of s "fst m" "fst (snd m)" "snd (snd m)"]
  by (auto simp: validMove_def split: prod.splits)

text \<open>
  C1 (as amended). For the empty string and for every symbol whose first non-whitespace
  character is neither one of U, D, L, R, F, B in either case nor NUL, startMoveImmediate
  returns false and leaves the animation state and every sticker as they were; the move
  queue is emptied, because the queue is cleared before the symbol is parsed.
\<close>

theorem startMoveImmediate_unparseable:
  assumes "move = [] \<or> (stripped move \<noteq> [] \<and> \<not> isFaceLetter (toupper (hd (stripped move)))
             \<and> hd (stripped move) \<noteq> CHR 0x00)"
  shows "startMoveImmediate move c = (False, c\<lparr>m_queue := []\<rparr>)
         \<and> fst (startMoveImmediate move c) = False
         \<and> m_anim (snd (startMoveImmediate move c)) = m_anim c
         \<and> m_stickers (snd (startMoveImmediate move c)) = m_stickers c
         \<and> m_queue (snd (startMoveImmediate move c)) = []"
  using parseMove_reject[OF assms] by (simp add: startMoveImmediate_def)

theorem startMoveImmediate_unparseable_witness:
  "startMoveImmediate ''X'' (snd (queueMove ''R'' (Core_new 1 (3 / 100) 720))) =
       (False, (snd (queueMove ''R'' (Core_new 1 (3 / 100) 720)))\<lparr>m_queue := []\<rparr>)
   \<and> startMoveImmediate ''x2'' (snd (queueMove ''R'' (Core_new 1 (3 / 100) 720))) =
       (False, (snd (queueMove ''R'' (Core_new 1 (3 / 100) 720)))\<lparr>m_queue := []\<rparr>)
   \<and> startMoveImmediate [] (snd (queueMove ''R'' (Core_new 1 (3 / 100) 720))) =
       (False, (snd (queueMove ''R'' (Core_new 1 (3 / 100) 720)))\<lparr>m_queue := []\<rparr>)"
  using startMoveImmediate_unparseable[of "''X''"
      "snd (queueMove ''R'' (Core_new 1 (3 / 100) 720))"]
    startMoveImmediate_unparseable[of "''x2''"
      "snd (queueMove ''R'' (Core_new 1 (3 / 100) 720))"]
    startMoveImmediate_unparseable[of "[]"
      "snd (queueMove ''R'' (Core_new 1 (3 / 100) 720))"]
  by (simp add: isFaceLetter_def stripped_def isspace_def toupper_lower toupper_X)

text \<open>
  The claim as first stated fails: with the parsed move R waiting in the queue, the
  unparseable symbol X makes startMoveImmediate return false and yet empties the queue.
\<close>

theorem startMoveImmediate_clears_queue_counterexample:
  "parseMove ''X'' = None
   \<and> m_queue (snd (queueMove ''R'' (Core_new 1 (3 / 100) 720))) = [''R'']
   \<and> fst (startMoveImmediate ''X'' (snd (queueMove ''R'' (Core_new 1 (3 / 100) 720)))) = False
   \<and> m_queue (snd (startMoveImmediate ''X'' (snd (queueMove ''R'' (Core_new 1 (3 / 100) 720)))))
       = []"
  by (simp add: parseMove_X parseMove_R startMoveImmediate_def queueMove_def Core_new_def)

text \<open>
  C2 (as amended). queueMove returns true and appends the symbol, so that the queue grows by
  exactly one, for every string that matches \<open>[UDLRFB]('|2)?\<close>, and more generally for
  every string whose first non-whitespace character is, ignoring case, one of U, D, L, R, F,
  B. It returns false and leaves the core unchanged for the empty string and for every string
  whose first non-whitespace character is neither such a letter nor NUL.
\<close>

theorem queueMove_accepts:
  "(matchesPattern move \<longrightarrow>
      queueMove move c = (True, c\<lparr>m_queue := m_queue c @ [move]\<rparr>)
      \<and> length (m_queue (snd (queueMove move c))) = length (m_queue c) + 1)
   \<and> (move \<noteq> [] \<and> stripped move \<noteq> [] \<and> isFaceLetter (toupper (hd (stripped move))) \<longrightarrow>
        queueMove move c = (True, c\<lparr>m_queue := m_queue c @ [move]\<rparr>)
        \<and> length (m_queue (snd (queueMove move c))) = length (m_queue c) + 1)
   \<and> (move = [] \<or> (stripped move \<noteq> [] \<and> \<not> isFaceLetter (toupper (hd (stripped move)))
           \<and> hd (stripped move) \<noteq> CHR 0x00) \<longrightarrow>
        queueMove move c = (False, c))"
proof -
  have acc: "queueMove move c = (True, c\<lparr>m_queue := m_queue c @ [move]\<rparr>)
      \<and> length (m_queue (snd (queueMove move c))) = length (m_queue c) + 1"
    if "\<exists>r. parseMove move = Some r"
    using that by (auto simp: queueMove_def)
  have rej: "queueMove move c = (False, c)" if "parseMove move = None"
    using that by (simp add: queueMove_def)
  show ?thesis
    using acc[OF parseMove_pattern] acc[OF parseMove_accept] rej[OF parseMove_reject]
    by blast
qed

theorem queueMove_accepts_witness:
  "queueMove ''R2'' (Core_new 1 (3 / 100) 720) =
     (True, (Core_new 1 (3 / 100) 720)\<lparr>m_queue := m_queue (Core_new 1 (3 / 100) 720) @ [''R2'']\<rparr>)
   \<and> queueMove '' f'' (Core_new 1 (3 / 100) 720) =
     (True, (Core_new 1 (3 / 100) 720)\<lparr>m_queue := m_queue (Core_new 1 (3 / 100) 720) @ ['' f'']\<rparr>)
   \<and> queueMove ''x'' (Core_new 1 (3 / 100) 720) = (False, Core_new 1 (3 / 100) 720)
   \<and> queueMove [] (Core_new 1 (3 / 100) 720) = (False, Core_new 1 (3 / 100) 720)"
  using queueMove_accepts[of "''R2''" "Core_new 1 (3 / 100) 720"]
    queueMove_accepts[of "'' f''" "Core_new 1 (3 / 100) 720"]
    queueMove_accepts[of "''x''" "Core_new 1 (3 / 100) 720"]
    queueMove_accepts[of "[]" "Core_new 1 (3 / 100) 720"]
  by (simp add: isFaceLetter_def stripped_def isspace_def toupper_lower toupper_face)

text \<open>
  The claim as first stated fails: the lower-case symbol u does not match the pattern, and
  queueMove accepts it.
\<close>

theorem queueMove_lowercase_counterexample:
  "\<not> matchesPattern ''u''
   \<and> queueMove ''u'' (Core_new 1 (3 / 100) 720) =
       (True, (Core_new 1 (3 / 100) 720)\<lparr>m_queue := m_queue (Core_new 1 (3 / 100) 720) @ [''u'']\<rparr>)"
  by (simp add: isFaceLetter_def queueMove_def parseMove_u)

section \<open>The discrete rotation on integer vectors\<close>

lemma normalize_axes:
  "glm_normalize (1, 0, 0) = Some (1, 0, 0)"
  "glm_normalize (0, 1, 0) = Some (0, 1, 0)"
  "glm_normalize (0, 0, 1) = Some (0, 0, 1)"
  by (simp_all add: glm_normalize_def)

lemma normalize_zero: "glm_normalize (0, 0, 0) = None"
  by (simp add: glm_normalize_def)

lemma round_int: "int_of_float (glm_round (of_int n)) = n"
  by (simp add: int_of_float_def glm_round_def) linarith

text \<open>
  Rounding absorbs every error below one half: a computed component that differs from the
  exact integer by less than 1/2 is rounded to that integer. The quarter and half turns of
  the cube's coordinates, which lie in -1..1, are computed in single precision with an error
  many orders of magnitude smaller, which is why the exact rotation below stands for the
  computed one.
\<close>

lemma round_near_int:
  assumes "\<bar>x - of_int n\<bar> < 1 / 2"
  shows "int_of_float (glm_round x) = n"
proof -
  have "glm_round x = of_int n"
  proof (cases "x < 0")
    case True
    have "\<lceil>x - 1 / 2\<rceil> = n"
      using assms by (intro ceiling_unique) (auto simp: abs_if split: if_splits)
    with True show ?thesis by (simp add: glm_round_def)
  next
    case False
    have "\<lfloor>x + 1 / 2\<rfloor> = n"
      using assms by (intro floor_unique) (auto simp: abs_if split: if_splits)
    with False show ?thesis by (simp add: glm_round_def)
  qed
  then show ?thesis by (simp add: int_of_float_def)
qed

lemma quat_rotate_x:
  "quat_rotate (c, s, 0, 0) (X, Y, Z) =
     (X, (1 - 2 * (s * s)) * Y - 2 * (s * c) * Z, (1 - 2 * (s * s)) * Z + 2 * (s * c) * Y)"
  by (simp add: Let_def algebra_simps)

lemma quat_rotate_y:
  "quat_rotate (c, 0, s, 0) (X, Y, Z) =
     ((1 - 2 * (s * s)) * X + 2 * (s * c) * Z, Y, (1 - 2 * (s * s)) * Z - 2 * (s * c) * X)"
  by (simp add: Let_def algebra_simps)

lemma quat_rotate_z:
  "quat_rotate (c, 0, 0, s) (X, Y, Z) =
     ((1 - 2 * (s * s)) * X - 2 * (s * c) * Y, (1 - 2 * (s * s)) * Y + 2 * (s * c) * X, Z)"
  by (simp add: Let_def algebra_simps)

lemma half_turn_values:
  "cos (glm_radians 90 * (1 / 2)) = sqrt 2 / 2"
  "sin (glm_radians 90 * (1 / 2)) = sqrt 2 / 2"
  "cos (glm_radians (- 90) * (1 / 2)) = sqrt 2 / 2"
  "sin (glm_radians (- 90) * (1 / 2)) = - (sqrt 2 / 2)"
  "cos (glm_radians 180 * (1 / 2)) = 0"
  "sin (glm_radians 180 * (1 / 2)) = 1"
proof -
  have a: "glm_radians 90 * (1 / 2) = pi / 4" "glm_radians (- 90) * (1 / 2) = - (pi / 4)"
    "glm_radians 180 * (1 / 2) = pi / 2"
    by (simp_all add: glm_radians_def)
  show "cos (glm_radians 90 * (1 / 2)) = sqrt 2 / 2"
    "sin (glm_radians 90 * (1 / 2)) = sqrt 2 / 2"
    "cos (glm_radians (- 90) * (1 / 2)) = sqrt 2 / 2"
    "sin (glm_radians (- 90) * (1 / 2)) = - (sqrt 2 / 2)"
    "cos (glm_radians 180 * (1 / 2)) = 0"
    "sin (glm_radians 180 * (1 / 2)) = 1"
    unfolding a by (simp_all add: sin_45 cos_45)
qed

lemma angleAxis_values:
  "glm_angleAxis (glm_radians 90) (1, 0, 0) = (sqrt 2 / 2, sqrt 2 / 2, 0, 0)"
  "glm_angleAxis (glm_radians (- 90)) (1, 0, 0) = (sqrt 2 / 2, - (sqrt 2 / 2), 0, 0)"
  "glm_angleAxis (glm_radians 180) (1, 0, 0) = (0, 1, 0, 0)"
  "glm_angleAxis (glm_radians 90) (0, 1, 0) = (sqrt 2 / 2, 0, sqrt 2 / 2, 0)"
  "glm_angleAxis (glm_radians (- 90)) (0, 1, 0) = (sqrt 2 / 2, 0, - (sqrt 2 / 2), 0)"
  "glm_angleAxis (glm_radians 180) (0, 1, 0) = (0, 0, 1, 0)"
  "glm_angleAxis (glm_radians 90) (0, 0, 1) = (sqrt 2 / 2, 0, 0, sqrt 2 / 2)"
  "glm_angleAxis (glm_radians (- 90)) (0, 0, 1) = (sqrt 2 / 2, 0, 0, - (sqrt 2 / 2))"
  "glm_angleAxis (glm_radians 180) (0, 0, 1) = (0, 0, 0, 1)"
  unfolding glm_angleAxis_def half_turn_values by simp_all

lemma rot_x:
  "rotate_ivec3 (glm_angleAxis (glm_radians 90) (1, 0, 0)) (x, y, z) = (x, - z, y)"
  "rotate_ivec3 (glm_angleAxis (glm_radians (- 90)) (1, 0, 0)) (x, y, z) = (x, z, - y)"
  "rotate_ivec3 (glm_angleAxis (glm_radians 180) (1, 0, 0)) (x, y, z) = (x, - y, - z)"
  unfolding angleAxis_values rotate_ivec3_def vec3_of_ivec3.simps quat_rotate_x
  using round_int[of "- z"] round_int[of "- y"]
  by (simp_all add: round_int)

lemma rot_y:
  "rotate_ivec3 (glm_angleAxis (glm_radians 90) (0, 1, 0)) (x, y, z) = (z, y, - x)"
  "rotate_ivec3 (glm_angleAxis (glm_radians (- 90)) (0, 1, 0)) (x, y, z) = (- z, y, x)"
  "rotate_ivec3 (glm_angleAxis (glm_radians 180) (0, 1, 0)) (x, y, z) = (- x, y, - z)"
  unfolding angleAxis_values rotate_ivec3_def vec3_of_ivec3.simps quat_rotate_y
  using round_int[of "- z"] round_int[of "- x"]
  by (simp_all add: round_int)

lemma rot_z:
  "rotate_ivec3 (glm_angleAxis (glm_radians 90) (0, 0, 1)) (x, y, z) = (- y, x, z)"
  "rotate_ivec3 (glm_angleAxis (glm_radians (- 90)) (0, 0, 1)) (x, y, z) = (y, - x, z)"
  "rotate_ivec3 (glm_angleAxis (glm_radians 180) (0, 0, 1)) (x, y, z) = (- x, - y, z)"
  unfolding angleAxis_values rotate_ivec3_def vec3_of_ivec3.simps quat_rotate_z
  using round_int[of "- y"] round_int[of "- x"]
  by (simp_all add: round_int)

lemma coordAlong_quarterTurn [simp]: "coordAlong i (quarterTurn i v) = coordAlong i v"
  by (cases "(i, v)" rule: quarterTurn.cases) auto

lemma coordAlong_funpow [simp]: "coordAlong i ((quarterTurn i ^^ k) v) = coordAlong i v"
  by (induction k) simp_all

lemma quarterTurn4: "quarterTurn i (quarterTurn i (quarterTurn i (quarterTurn i v))) = v"
  by (cases "(i, v)" rule: quarterTurn.cases) auto

lemma turnKey4: "turnKey i lay (turnKey i lay (turnKey i lay (turnKey i lay k))) = k"
  by (simp add: turnKey_def quarterTurn4)

lemma inj_turnKey: "inj (turnKey i lay)"
  by (rule inj_on_inverseI[where g = "\<lambda>k. turnKey i lay (turnKey i lay (turnKey i lay k))"])
     (simp add: turnKey4)

lemma turnKey_funpow:
  "(turnKey i lay ^^ k) (p, n) =
     (if coordAlong i p = lay then ((quarterTurn i ^^ k) p, (quarterTurn i ^^ k) n) else (p, n))"
  by (induction k) (simp_all add: turnKey_def)

lemma layerCoord_unitAxis: "i < 3 \<Longrightarrow> layerCoord (unitAxis i) v = coordAlong i v"
  by (cases "(i, v)" rule: coordAlong.cases) (auto simp: layerCoord_def unitAxis_def)

lemma normalize_unitAxis: "glm_normalize (unitAxis i) = Some (unitAxis i)"
  by (simp add: unitAxis_def normalize_axes)

lemma rotate_unitAxis:
  assumes "i < 3" "angle \<in> {90, - 90, 180}"
  shows "rotate_ivec3 (glm_angleAxis (glm_radians angle) (unitAxis i)) v
           = (quarterTurn i ^^ quarters angle) v"
proof -
  obtain x y z where v: "v = (x, y, z)" by (cases v)
  from assms(1) have "i = 0 \<or> i = 1 \<or> i = 2" by auto
  then show ?thesis
    using assms(2)
    by (auto simp: v unitAxis_def quarters_def rot_x rot_y rot_z numeral_2_eq_2 numeral_3_eq_3)
qed

section \<open>A move on the stickers\<close>

lemma key_rebuild [simp]: "key (rebuildBaseModel cs sp s) = key s"
  by (simp add: key_def rebuildBaseModel_def)

lemma color_rebuild [simp]: "color (rebuildBaseModel cs sp s) = color s"
  by (simp add: rebuildBaseModel_def)

lemma rotateSticker_unit:
  assumes "i < 3" "angle \<in> {90, - 90, 180}"
  shows "\<exists>s'. rotateSticker (Some (glm_angleAxis (glm_radians angle) (unitAxis i)))
                 (unitAxis i) lay s = Some s'
           \<and> key s' = (turnKey i lay ^^ quarters angle) (key s) \<and> color s' = color s"
  using assms
  by (simp add: rotateSticker_def layerCoord_unitAxis key_def turnKey_funpow rotate_unitAxis)

lemma rotateStickers_unit:
  assumes "i < 3" "angle \<in> {90, - 90, 180}"
  shows "\<exists>ss'. rotateStickers (Some (glm_angleAxis (glm_radians angle) (unitAxis i)))
                  (unitAxis i) lay ss = Some ss'
           \<and> map key ss' = map (turnKey i lay ^^ quarters angle) (map key ss)
           \<and> map color ss' = map color ss"
proof (induction ss)
  case Nil
  show ?case by simp
next
  case (Cons s ss)
  from rotateSticker_unit[OF assms, of lay s] Cons show ?case
    by (auto simp del: map_map)
qed

lemma applyRotationDiscrete_unit:
  assumes "i < 3" "angle \<in> {90, - 90, 180}"
  shows "\<exists>ss'. applyRotationDiscrete (unitAxis i) lay angle c = Some (c\<lparr>m_stickers := ss'\<rparr>)
           \<and> map key ss' = map (turnKey i lay ^^ quarters angle) (map key (m_stickers c))
           \<and> map color ss' = map color (m_stickers c)"
proof -
  from rotateStickers_unit[OF assms, of lay "m_stickers c"] obtain ss' where
    r: "rotateStickers (Some (glm_angleAxis (glm_radians angle) (unitAxis i))) (unitAxis i) lay
          (m_stickers c) = Some ss'"
    and k: "map key ss' = map (turnKey i lay ^^ quarters angle) (map key (m_stickers c))"
    and cl: "map color ss' = map color (m_stickers c)" by blast
  have "map key (map (rebuildBaseModel (m_cubieSize c) (m_spacing c)) ss') = map key ss'"
    "map color (map (rebuildBaseModel (m_cubieSize c) (m_spacing c)) ss') = map color ss'"
    by simp_all
  with r k cl show ?thesis
    by (intro exI[where x = "map (rebuildBaseModel (m_cubieSize c) (m_spacing c)) ss'"])
       (simp add: applyRotationDiscrete_def normalize_unitAxis del: map_map)
qed

lemma startParsedMove_valid:
  assumes "isFaceLetter face" "amount = 1 \<or> amount = 2"
  shows "startParsedMove face amount prime c =
           c\<lparr>m_anim := (m_anim c)\<lparr>active := True, axis := unitAxis (moveAxis face),
               layer := moveLayer face, targetAngle := moveAngle amount prime,
               currentAngle := 0\<rparr>\<rparr>"
proof -
  from assms(1) have "face \<in> {CHR ''U'', CHR ''D'', CHR ''L'', CHR ''R'', CHR ''F'', CHR ''B''}"
    by (simp add: isFaceLetter_def)
  then show ?thesis
    using assms(2)
    by (elim insertE emptyE disjE)
       (simp_all add: startParsedMove_def unitAxis_def moveAxis_def moveLayer_def moveAngle_def)
qed

lemma moveAxis_lt: "moveAxis face < 3"
  by (simp add: moveAxis_def)

lemma moveAngle_in: "moveAngle amount prime \<in> {90, - 90, 180}"
  by (simp add: moveAngle_def)

lemma playMove_valid:
  assumes "isFaceLetter face" "amount = 1 \<or> amount = 2"
  shows "\<exists>c'. playMove face amount prime c = Some c'
           \<and> map key (m_stickers c') =
               map (turnKey (moveAxis face) (moveLayer face) ^^ quarters (moveAngle amount prime))
                 (map key (m_stickers c))
           \<and> map color (m_stickers c') = map color (m_stickers c)"
proof -
  let ?c1 = "startParsedMove face amount prime c"
  from applyRotationDiscrete_unit[OF moveAxis_lt[of face] moveAngle_in[of amount prime],
      of "moveLayer face" ?c1]
  obtain ss' where
    a: "applyRotationDiscrete (unitAxis (moveAxis face)) (moveLayer face)
          (moveAngle amount prime) ?c1 = Some (?c1\<lparr>m_stickers := ss'\<rparr>)"
    and k: "map key ss' =
              map (turnKey (moveAxis face) (moveLayer face) ^^ quarters (moveAngle amount prime))
                (map key (m_stickers ?c1))"
    and cl: "map color ss' = map color (m_stickers ?c1)" by blast
  have s: "m_stickers ?c1 = m_stickers c" "axis (m_anim ?c1) = unitAxis (moveAxis face)"
    "layer (m_anim ?c1) = moveLayer face" "targetAngle (m_anim ?c1) = moveAngle amount prime"
    by (simp_all add: startParsedMove_valid[OF assms])
  show ?thesis
    using a k cl by (simp add: playMove_def Let_def s)
qed

section \<open>The sticker partition\<close>

lemma distinct_initKeys: "distinct initKeys"
  by (simp add: initKeys_def FACE_ORDER_def initialPos_def faceNormal_def)

lemma length_initKeys: "length initKeys = 54"
  by (simp add: initKeys_def FACE_ORDER_def)

lemma turn_initKeys:
  "set (map (turnKey 0 1) initKeys) = set initKeys"
  "set (map (turnKey 0 (- 1)) initKeys) = set initKeys"
  "set (map (turnKey 1 1) initKeys) = set initKeys"
  "set (map (turnKey 1 (- 1)) initKeys) = set initKeys"
  "set (map (turnKey 2 1) initKeys) = set initKeys"
  "set (map (turnKey 2 (- 1)) initKeys) = set initKeys"
  by (simp_all add: initKeys_def FACE_ORDER_def initialPos_def faceNormal_def turnKey_def
        insert_commute numeral_2_eq_2)

lemma moveAxisLayer_cases:
  "isFaceLetter face \<Longrightarrow>
     (moveAxis face, moveLayer face) \<in> {(0, 1), (0, - 1), (1, 1), (1, - 1), (2, 1), (2, - 1)}"
  by (auto simp: isFaceLetter_def moveAxis_def moveLayer_def)

lemma turn_keys_set:
  assumes "isFaceLetter face" "set ks = set initKeys"
  shows "set (map (turnKey (moveAxis face) (moveLayer face)) ks) = set initKeys"
proof -
  have "set (map (turnKey (moveAxis face) (moveLayer face)) ks)
          = set (map (turnKey (moveAxis face) (moveLayer face)) initKeys)"
    using assms(2) by simp
  also have "\<dots> = set initKeys"
    using moveAxisLayer_cases[OF assms(1)] turn_initKeys by (elim insertE emptyE) simp_all
  finally show ?thesis .
qed

lemma keysInv_turn:
  assumes "isFaceLetter face" "distinct ks" "set ks = set initKeys"
  shows "distinct (map (turnKey (moveAxis face) (moveLayer face) ^^ k) ks)
         \<and> set (map (turnKey (moveAxis face) (moveLayer face) ^^ k) ks) = set initKeys"
proof (induction k)
  case 0
  from assms show ?case by simp
next
  case (Suc k)
  let ?g = "turnKey (moveAxis face) (moveLayer face)"
  have m: "map (?g ^^ Suc k) ks = map ?g (map (?g ^^ k) ks)" by simp
  have "inj_on ?g (set (map (?g ^^ k) ks))"
    by (rule inj_on_subset[OF inj_turnKey]) simp
  with Suc have "distinct (map ?g (map (?g ^^ k) ks))"
    by (simp only: distinct_map)
  moreover have "set (map ?g (map (?g ^^ k) ks)) = set initKeys"
    using turn_keys_set[OF assms(1)] Suc by blast
  ultimately show ?case unfolding m by blast
qed

lemma cubeInv_playMove:
  assumes "validMove (face, amount, prime)" "cubeInv (m_stickers c)"
  shows "\<exists>c'. playMove face amount prime c = Some c' \<and> cubeInv (m_stickers c')"
proof -
  from assms(1) have f: "isFaceLetter face" and a: "amount = 1 \<or> amount = 2"
    by (simp_all add: validMove_def)
  from playMove_valid[OF f a, of prime c] obtain c' where
    p: "playMove face amount prime c = Some c'"
    and k: "map key (m_stickers c') =
               map (turnKey (moveAxis face) (moveLayer face) ^^ quarters (moveAngle amount prime))
                 (map key (m_stickers c))" by blast
  from keysInv_turn[OF f, of "map key (m_stickers c)" "quarters (moveAngle amount prime)"] assms(2)
  have "cubeInv (m_stickers c')" unfolding cubeInv_def k by blast
  with p show ?thesis by blast
qed

lemma cubeInv_playMoves:
  assumes "\<forall>m\<in>set ms. validMove m" "cubeInv (m_stickers c)"
  shows "\<exists>c'. playMoves ms c = Some c' \<and> cubeInv (m_stickers c')"
  using assms
proof (induction ms arbitrary: c)
  case Nil
  then show ?case by simp
next
  case (Cons m ms)
  obtain face amount prime where m: "m = (face, amount, prime)" by (cases m)
  from Cons.prems have v: "validMove (face, amount, prime)" by (simp add: m)
  from cubeInv_playMove[OF v Cons.prems(2)] obtain c1 where
    p: "playMove face amount prime c = Some c1" and i: "cubeInv (m_stickers c1)" by blast
  from Cons.IH[OF _ i] Cons.prems(1) show ?case by (simp add: m p)
qed

lemma key_initialSticker:
  "key (initialSticker cs sp face a b) = (initialPos face a b, fst (faceNormal face))"
  by (simp add: initialSticker_def key_def rebuildBaseModel_def)

lemma keys_initial: "map key (buildInitialStickers cs sp) = initKeys"
  by (simp add: buildInitialStickers_def initKeys_def map_concat key_initialSticker o_def
        FACE_ORDER_def)

lemma cubeInv_initial: "cubeInv (m_stickers (Core_new cs gap speed))"
  by (simp add: cubeInv_def Core_new_def keys_initial distinct_initKeys)

lemma count_initKeys:
  "list_all (\<lambda>n. length (filter (\<lambda>k. snd k = n) initKeys) = 9) directions"
  by (simp add: initKeys_def FACE_ORDER_def initialPos_def faceNormal_def directions_def)

lemma cubeInv_partitioned:
  assumes "cubeInv (m_stickers c)"
  shows "partitioned c"
proof -
  let ?ks = "map key (m_stickers c)"
  from assms have d: "distinct ?ks" and s: "set ?ks = set initKeys"
    by (simp_all add: cubeInv_def)
  from distinct_card[OF d] distinct_card[OF distinct_initKeys] s
  have "length ?ks = length initKeys" by metis
  then have len: "length (m_stickers c) = 54" by (simp add: length_initKeys)
  have cnt: "normalCount n c = length (filter (\<lambda>k. snd k = n) initKeys)" for n
  proof -
    have "normalCount n c = length (filter (\<lambda>k. snd k = n) ?ks)"
      by (simp add: normalCount_def filter_map o_def key_def)
    also have "\<dots> = card ({k. snd k = n} \<inter> set ?ks)"
      using d by (rule distinct_length_filter)
    also have "\<dots> = card ({k. snd k = n} \<inter> set initKeys)" using s by simp
    also have "\<dots> = length (filter (\<lambda>k. snd k = n) initKeys)"
      using distinct_length_filter[OF distinct_initKeys] by simp
    finally show ?thesis .
  qed
  show ?thesis
    using count_initKeys len by (simp add: partitioned_def cnt)
qed

lemma applyRotationDiscrete_cubeInv:
  assumes "validMove (face, amount, prime)" "cubeInv (m_stickers c)"
  shows "\<exists>c'. applyRotationDiscrete (axis (m_anim (startParsedMove face amount prime c)))
                 (layer (m_anim (startParsedMove face amount prime c)))
                 (targetAngle (m_anim (startParsedMove face amount prime c))) c = Some c'
           \<and> cubeInv (m_stickers c')"
proof -
  from assms(1) have f: "isFaceLetter face" and a: "amount = 1 \<or> amount = 2"
    by (simp_all add: validMove_def)
  let ?q = "quarters (moveAngle amount prime)"
  from applyRotationDiscrete_unit[OF moveAxis_lt[of face] moveAngle_in[of amount prime],
      of "moveLayer face" c]
  obtain ss' where
    r: "applyRotationDiscrete (unitAxis (moveAxis face)) (moveLayer face)
          (moveAngle amount prime) c = Some (c\<lparr>m_stickers := ss'\<rparr>)"
    and k: "map key ss' =
              map (turnKey (moveAxis face) (moveLayer face) ^^ ?q) (map key (m_stickers c))"
    by blast
  from keysInv_turn[OF f, of "map key (m_stickers c)" ?q] assms(2)
  have "cubeInv ss'" unfolding cubeInv_def k by blast
  with r show ?thesis by (simp add: startParsedMove_valid[OF f a])
qed

text \<open>
  C3. In the initial sticker set and after every sequence of completed valid moves there are
  54 stickers, exactly 9 with each of the six axis-aligned unit normals; and from every such
  state applyRotationDiscrete, called with the axis, layer and target angle of any valid
  move, returns a state with the same partition.
\<close>

theorem sticker_partition_invariant:
  assumes "\<forall>m\<in>set ms. validMove m"
  shows "\<exists>c. playMoves ms (Core_new cubieSize gap speed) = Some c \<and> partitioned c
           \<and> (\<forall>face amount prime. validMove (face, amount, prime) \<longrightarrow>
                (\<exists>c'. applyRotationDiscrete
                         (axis (m_anim (startParsedMove face amount prime c)))
                         (layer (m_anim (startParsedMove face amount prime c)))
                         (targetAngle (m_anim (startParsedMove face amount prime c))) c = Some c'
                      \<and> partitioned c'))"
proof -
  from cubeInv_playMoves[OF assms cubeInv_initial] obtain c where
    p: "playMoves ms (Core_new cubieSize gap speed) = Some c" and i: "cubeInv (m_stickers c)"
    by blast
  have "\<exists>c'. applyRotationDiscrete (axis (m_anim (startParsedMove face amount prime c)))
                (layer (m_anim (startParsedMove face amount prime c)))
                (targetAngle (m_anim (startParsedMove face amount prime c))) c = Some c'
              \<and> partitioned c'"
    if "validMove (face, amount, prime)" for face amount prime
    using applyRotationDiscrete_cubeInv[OF that i] cubeInv_partitioned by blast
  with p cubeInv_partitioned[OF i] show ?thesis by blast
qed

theorem sticker_partition_invariant_witness:
  "\<exists>c. playMoves [(CHR ''R'', 1, False), (CHR ''U'', 2, True), (CHR ''B'', 1, True)]
          (Core_new 1 (3 / 100) 720) = Some c
       \<and> partitioned c"
  using sticker_partition_invariant[of
      "[(CHR ''R'', 1, False), (CHR ''U'', 2, True), (CHR ''B'', 1, True)]" 1 "3 / 100" 720]
  by (auto simp: validMove_def isFaceLetter_def)

section \<open>Four quarter turns\<close>

lemma turnKey_four_times:
  assumes "k = 1 \<or> k = 3"
  shows "(turnKey i lay ^^ k) ((turnKey i lay ^^ k) ((turnKey i lay ^^ k)
           ((turnKey i lay ^^ k) x))) = x"
  using assms by (auto simp: numeral_3_eq_3 turnKey4)

lemma quarters_moveAngle_1: "quarters (moveAngle 1 prime) = 1 \<or> quarters (moveAngle 1 prime) = 3"
  by (simp add: quarters_def moveAngle_def)

text \<open>
  C4. For every cube state and every face, playing the same signed quarter turn four times
  in succession (each time the move starts and its discrete mutation is applied) succeeds and
  returns every sticker's cubePos and normal to their values before the first turn.
\<close>

theorem four_quarter_turns_identity:
  assumes "isFaceLetter face"
  shows "\<exists>c1 c2 c3 c4.
           playMove face 1 prime c = Some c1 \<and> playMove face 1 prime c1 = Some c2
           \<and> playMove face 1 prime c2 = Some c3 \<and> playMove face 1 prime c3 = Some c4
           \<and> map cubePos (m_stickers c4) = map cubePos (m_stickers c)
           \<and> map normal (m_stickers c4) = map normal (m_stickers c)"
proof -
  let ?g = "turnKey (moveAxis face) (moveLayer face) ^^ quarters (moveAngle 1 prime)"
  have a: "(1::int) = 1 \<or> (1::int) = 2" by simp
  from playMove_valid[OF assms a, of prime c] obtain c1 where
    p1: "playMove face 1 prime c = Some c1"
    and k1: "map key (m_stickers c1) = map ?g (map key (m_stickers c))" by blast
  from playMove_valid[OF assms a, of prime c1] obtain c2 where
    p2: "playMove face 1 prime c1 = Some c2"
    and k2: "map key (m_stickers c2) = map ?g (map key (m_stickers c1))" by blast
  from playMove_valid[OF assms a, of prime c2] obtain c3 where
    p3: "playMove face 1 prime c2 = Some c3"
    and k3: "map key (m_stickers c3) = map ?g (map key (m_stickers c2))" by blast
  from playMove_valid[OF assms a, of prime c3] obtain c4 where
    p4: "playMove face 1 prime c3 = Some c4"
    and k4: "map key (m_stickers c4) = map ?g (map key (m_stickers c3))" by blast
  have "map key (m_stickers c4) = map (\<lambda>x. ?g (?g (?g (?g x)))) (map key (m_stickers c))"
    unfolding k4 k3 k2 k1 by simp
  also have "\<dots> = map key (m_stickers c)"
    using turnKey_four_times[OF quarters_moveAngle_1] by simp
  finally have k: "map key (m_stickers c4) = map key (m_stickers c)" .
  have "map cubePos (m_stickers c4) = map fst (map key (m_stickers c4))"
    "map normal (m_stickers c4) = map snd (map key (m_stickers c4))"
    "map cubePos (m_stickers c) = map fst (map key (m_stickers c))"
    "map normal (m_stickers c) = map snd (map key (m_stickers c))"
    by (simp_all add: key_def o_def)
  with k have "map cubePos (m_stickers c4) = map cubePos (m_stickers c)"
    "map normal (m_stickers c4) = map normal (m_stickers c)" by simp_all
  with p1 p2 p3 p4 show ?thesis by blast
qed

theorem four_quarter_turns_identity_witness:
  "\<exists>c1 c2 c3 c4.
     playMove (CHR ''R'') 1 True (Core_new 1 (3 / 100) 720) = Some c1
     \<and> playMove (CHR ''R'') 1 True c1 = Some c2
     \<and> playMove (CHR ''R'') 1 True c2 = Some c3 \<and> playMove (CHR ''R'') 1 True c3 = Some c4
     \<and> map cubePos (m_stickers c4) = map cubePos (m_stickers (Core_new 1 (3 / 100) 720))
     \<and> map normal (m_stickers c4) = map normal (m_stickers (Core_new 1 (3 / 100) 720))"
  using four_quarter_turns_identity[of "CHR ''R''" True "Core_new 1 (3 / 100) 720"]
  by (simp add: isFaceLetter_def)

section \<open>Move symbols and their angles\<close>

lemma parseMove_forms:
  assumes "isFaceLetter X"
  shows "parseMove [X] = Some (X, 1, False)"
    "parseMove [X, CHR 0x27] = Some (X, 1, True)"
    "parseMove [X, CHR ''2''] = Some (X, 2, False)"
    "parseMove [X, CHR ''2'', CHR 0x27] = Some (X, 2, True)"
proof -
  from assms have "X \<in> {CHR ''U'', CHR ''D'', CHR ''L'', CHR ''R'', CHR ''F'', CHR ''B''}"
    by (simp add: isFaceLetter_def)
  then show "parseMove [X] = Some (X, 1, False)"
    "parseMove [X, CHR 0x27] = Some (X, 1, True)"
    "parseMove [X, CHR ''2''] = Some (X, 2, False)"
    "parseMove [X, CHR ''2'', CHR 0x27] = Some (X, 2, True)"
    by (auto simp: parseMove_def isspace_def char_at_def toupper_def)
qed

lemma startMoveImmediate_Some:
  "parseMove move = Some (face, amount, prime) \<Longrightarrow>
     startMoveImmediate move c =
       (True, startParsedMove face amount prime (c\<lparr>m_queue := []\<rparr>))"
  by (simp add: startMoveImmediate_def)

text \<open>
  C6. For every face letter X the symbols X2 and X2' are both accepted and both start an
  animation with target angle +180 (the prime flag has no effect on a double turn), whereas
  X starts one with target angle +90 and X' one with target angle -90.
\<close>

theorem move_symbol_angles:
  "\<forall>X\<in>set ''UDLRFB''.
     (fst (startMoveImmediate [X, CHR ''2''] c)
        \<and> active (m_anim (snd (startMoveImmediate [X, CHR ''2''] c)))
        \<and> targetAngle (m_anim (snd (startMoveImmediate [X, CHR ''2''] c))) = 180)
     \<and> (fst (startMoveImmediate [X, CHR ''2'', CHR 0x27] c)
        \<and> active (m_anim (snd (startMoveImmediate [X, CHR ''2'', CHR 0x27] c)))
        \<and> targetAngle (m_anim (snd (startMoveImmediate [X, CHR ''2'', CHR 0x27] c))) = 180)
     \<and> (fst (startMoveImmediate [X] c)
        \<and> active (m_anim (snd (startMoveImmediate [X] c)))
        \<and> targetAngle (m_anim (snd (startMoveImmediate [X] c))) = 90)
     \<and> (fst (startMoveImmediate [X, CHR 0x27] c)
        \<and> active (m_anim (snd (startMoveImmediate [X, CHR 0x27] c)))
        \<and> targetAngle (m_anim (snd (startMoveImmediate [X, CHR 0x27] c))) = - 90)
     \<and> fst (queueMove [X, CHR ''2''] c) \<and> fst (queueMove [X, CHR ''2'', CHR 0x27] c)
     \<and> fst (queueMove [X] c) \<and> fst (queueMove [X, CHR 0x27] c)"
proof
  fix X assume "X \<in> set ''UDLRFB''"
  then have f: "isFaceLetter X" by (simp add: isFaceLetter_def)
  note p = parseMove_forms[OF f]
  have v: "(1::int) = 1 \<or> (1::int) = 2" "(2::int) = 1 \<or> (2::int) = 2" by simp_all
  show "(fst (startMoveImmediate [X, CHR ''2''] c)
        \<and> active (m_anim (snd (startMoveImmediate [X, CHR ''2''] c)))
        \<and> targetAngle (m_anim (snd (startMoveImmediate [X, CHR ''2''] c))) = 180)
     \<and> (fst (startMoveImmediate [X, CHR ''2'', CHR 0x27] c)
        \<and> active (m_anim (snd (startMoveImmediate [X, CHR ''2'', CHR 0x27] c)))
        \<and> targetAngle (m_anim (snd (startMoveImmediate [X, CHR ''2'', CHR 0x27] c))) = 180)
     \<and> (fst (startMoveImmediate [X] c)
        \<and> active (m_anim (snd (startMoveImmediate [X] c)))
        \<and> targetAngle (m_anim (snd (startMoveImmediate [X] c))) = 90)
     \<and> (fst (startMoveImmediate [X, CHR 0x27] c)
        \<and> active (m_anim (snd (startMoveImmediate [X, CHR 0x27] c)))
        \<and> targetAngle (m_anim (snd (startMoveImmediate [X, CHR 0x27] c))) = - 90)
     \<and> fst (queueMove [X, CHR ''2''] c) \<and> fst (queueMove [X, CHR ''2'', CHR 0x27] c)
     \<and> fst (queueMove [X] c) \<and> fst (queueMove [X, CHR 0x27] c)"
    by (simp add: startMoveImmediate_Some[OF p(1)] startMoveImmediate_Some[OF p(2)]
          startMoveImmediate_Some[OF p(3)] startMoveImmediate_Some[OF p(4)]
          startParsedMove_valid[OF f v(1)] startParsedMove_valid[OF f v(2)] moveAngle_def
          queueMove_def p)
qed

theorem move_symbol_angles_witness:
  "targetAngle (m_anim (snd (startMoveImmediate ''R2'' (Core_new 1 (3 / 100) 720)))) = 180
   \<and> targetAngle (m_anim (snd (startMoveImmediate [CHR ''R'', CHR ''2'', CHR 0x27]
         (Core_new 1 (3 / 100) 720)))) = 180
   \<and> targetAngle (m_anim (snd (startMoveImmediate ''R'' (Core_new 1 (3 / 100) 720)))) = 90
   \<and> targetAngle (m_anim (snd (startMoveImmediate [CHR ''R'', CHR 0x27]
         (Core_new 1 (3 / 100) 720)))) = - 90"
  using move_symbol_angles[of "Core_new 1 (3 / 100) 720"]
  by simp

section \<open>Clearing the queue\<close>

text \<open>
  C10. clearQueue empties the move queue and changes nothing else: the animation state and
  every sticker are unchanged, the queries return what they returned before, and the next
  update yields the same stickers as it would have without the call, so that a move already
  animating continues and completes; the queue then stays empty.
\<close>

theorem clearQueue_frame:
  "m_queue (clearQueue c) = []
   \<and> m_anim (clearQueue c) = m_anim c
   \<and> m_stickers (clearQueue c) = m_stickers c
   \<and> clearQueue c = c\<lparr>m_queue := []\<rparr>
   \<and> isAnimating (clearQueue c) = isAnimating c
   \<and> getStickerModelMatrices (clearQueue c) = getStickerModelMatrices c
   \<and> getStickerColors (clearQueue c) = getStickerColors c
   \<and> map_option m_stickers (update deltaSeconds (clearQueue c))
       = map_option m_stickers (update deltaSeconds c)
   \<and> map_option m_queue (update deltaSeconds (clearQueue c))
       = map_option (\<lambda>_. []) (update deltaSeconds c)"
proof -
  have u: "map_option m_stickers (update deltaSeconds (clearQueue c))
             = map_option m_stickers (update deltaSeconds c)"
    by (simp add: update_def clearQueue_def applyRotationDiscrete_def startNextInQueue_def
          startParsedMove_def Let_def split: option.splits list.splits)
  have q: "map_option m_queue (update deltaSeconds (clearQueue c))
             = map_option (\<lambda>_. []) (update deltaSeconds c)"
    by (simp add: update_def clearQueue_def applyRotationDiscrete_def startNextInQueue_def
          Let_def split: option.splits)
  have g: "getStickerModelMatrices (clearQueue c) = getStickerModelMatrices c"
    by (simp add: clearQueue_def getStickerModelMatrices_def Let_def split: option.splits)
  have r: "m_queue (clearQueue c) = [] \<and> m_anim (clearQueue c) = m_anim c
      \<and> m_stickers (clearQueue c) = m_stickers c \<and> clearQueue c = c\<lparr>m_queue := []\<rparr>
      \<and> isAnimating (clearQueue c) = isAnimating c
      \<and> getStickerColors (clearQueue c) = getStickerColors c"
    by (simp add: clearQueue_def isAnimating_def getStickerColors_def)
  from r g u q show ?thesis by blast
qed

section \<open>Sticker colours\<close>

lemma startParsedMove_stickers [simp]:
  "m_stickers (startParsedMove face amount prime c) = m_stickers c"
  by (simp add: startParsedMove_def Let_def)

lemma startNextInQueue_stickers [simp]:
  "m_stickers (startNextInQueue c) = m_stickers c"
  by (simp add: startNextInQueue_def Let_def split: list.splits option.splits)

lemma rotateStickerF_color [simp]: "color (rotateStickerF nanInt q ax lay s) = color s"
  by (simp add: rotateStickerF_def split: option.splits)

lemma applyRotationDiscreteF_color:
  "map color (m_stickers (applyRotationDiscreteF nanInt ax lay angleDeg c))
     = map color (m_stickers c)"
  by (simp add: applyRotationDiscreteF_def Let_def o_def)

lemma updateF_color:
  "getStickerColors (updateF rnd nanInt deltaSeconds c) = getStickerColors c"
  by (simp add: updateF_def Let_def getStickerColors_def applyRotationDiscreteF_color)

lemma performF_color:
  "getStickerColors (performF rnd nanInt x c) = getStickerColors c"
proof (cases x)
  case (Update deltaSeconds)
  then show ?thesis by (simp add: updateF_color)
next
  case (QueueMove move)
  then show ?thesis
    by (simp add: getStickerColors_def queueMove_def split: option.splits)
next
  case (StartMoveImmediate move)
  then show ?thesis
    by (simp add: getStickerColors_def startMoveImmediate_def Let_def split: option.splits)
next
  case ClearQueue
  then show ?thesis by (simp add: getStickerColors_def clearQueue_def)
qed

lemma runF_color:
  "getStickerColors (runF rnd nanInt xs c) = getStickerColors c"
  by (induction xs arbitrary: c) (simp_all add: performF_color)

text \<open>Where the discrete rotation of the first embedding is defined, the total one agrees.\<close>

lemma rotateStickers_total:
  "rotateStickers q ax lay ss = Some ss' \<Longrightarrow> map (rotateStickerF nanInt q ax lay) ss = ss'"
proof (induction ss arbitrary: ss')
  case Nil
  then show ?case by simp
next
  case (Cons s ss)
  then show ?case
    by (auto simp: rotateSticker_def rotateStickerF_def split: option.splits if_splits)
qed

lemma applyRotationDiscrete_total:
  "applyRotationDiscrete ax lay angleDeg c = Some c' \<Longrightarrow>
     applyRotationDiscreteF nanInt ax lay angleDeg c = c'"
proof -
  assume h: "applyRotationDiscrete ax lay angleDeg c = Some c'"
  let ?q = "map_option (glm_angleAxis (glm_radians angleDeg)) (glm_normalize ax)"
  from h obtain ss where r: "rotateStickers ?q ax lay (m_stickers c) = Some ss"
    and c': "c' = c\<lparr>m_stickers := map (rebuildBaseModel (m_cubieSize c) (m_spacing c)) ss\<rparr>"
    by (auto simp: applyRotationDiscrete_def Let_def split: option.splits)
  show ?thesis
    unfolding c' applyRotationDiscreteF_def Let_def rotateStickers_total[OF r] by simp
qed

lemma color_initialSticker: "color (initialSticker cs sp face a b) = faceToColor face"
  by (simp add: initialSticker_def rebuildBaseModel_def)

lemma initial_colors:
  "getStickerColors (Core_new cubieSize gap speed) =
     replicate 9 (1, 1, 1) @ replicate 9 (5 / 100, 7 / 10, 5 / 100)
     @ replicate 9 (8 / 10, 5 / 100, 5 / 100) @ replicate 9 (1, 1, 0)
     @ replicate 9 (5 / 100, 15 / 100, 9 / 10) @ replicate 9 (1, 5 / 10, 0)"
  by (simp add: getStickerColors_def Core_new_def buildInitialStickers_def map_concat o_def
        color_initialSticker FACE_ORDER_def faceToColor_def numeral_eq_Suc)

section \<open>When the tick is defined\<close>

lemma update_active:
  assumes "active (m_anim c)"
  shows "update deltaSeconds c =
     (if finishes (m_anim c) deltaSeconds then
        map_option (\<lambda>c'. startNextInQueue
             (c'\<lparr>m_anim := (m_anim c')\<lparr>active := False, currentAngle := 0\<rparr>\<rparr>))
          (applyRotationDiscrete (axis (m_anim c)) (layer (m_anim c)) (targetAngle (m_anim c))
             (c\<lparr>m_anim := (m_anim c)
                  \<lparr>currentAngle := advancedAngle (m_anim c) deltaSeconds\<rparr>\<rparr>))
      else Some (c\<lparr>m_anim := (m_anim c)
                  \<lparr>currentAngle := advancedAngle (m_anim c) deltaSeconds\<rparr>\<rparr>))"
  using assms
  by (simp add: update_def Let_def finishes_def advancedAngle_def split: option.splits)

lemma rotateStickers_Some: "\<exists>ss'. rotateStickers (Some q) ax lay ss = Some ss'"
  by (induction ss) (auto simp: rotateSticker_def)

lemma applyRotationDiscrete_defined:
  assumes "glm_normalize ax \<noteq> None"
  shows "\<exists>c'. applyRotationDiscrete ax lay angleDeg c = Some c'"
proof -
  from assms obtain a where a: "glm_normalize ax = Some a" by auto
  from rotateStickers_Some[of "glm_angleAxis (glm_radians angleDeg) a" ax lay "m_stickers c"]
  show ?thesis by (auto simp: applyRotationDiscrete_def a)
qed

lemma update_defined:
  assumes "active (m_anim c) \<Longrightarrow> glm_normalize (axis (m_anim c)) \<noteq> None"
  shows "\<exists>c'. update deltaSeconds c = Some c'"
proof (cases "active (m_anim c)")
  case True
  from applyRotationDiscrete_defined[OF assms[OF True]] show ?thesis
    by (auto simp: update_active[OF True])
next
  case False
  then show ?thesis by (simp add: update_def)
qed

text \<open>
  A started move whose whole angle fits into one tick is played by that tick: this is how
  \<open>update\<close> and \<open>playMove\<close> agree.
\<close>

lemma update_completes:
  assumes "active (m_anim c)" "currentAngle (m_anim c) = 0" "m_queue c = []"
    and "\<bar>targetAngle (m_anim c)\<bar> \<le> speedDeg (m_anim c) * deltaSeconds"
  shows "update deltaSeconds c =
           (case applyRotationDiscrete (axis (m_anim c)) (layer (m_anim c))
                   (targetAngle (m_anim c)) c of
              None \<Rightarrow> None
            | Some c' \<Rightarrow>
                Some (c'\<lparr>m_anim := (m_anim c')\<lparr>active := False, currentAngle := 0\<rparr>\<rparr>))"
proof -
  have adv: "advancedAngle (m_anim c) deltaSeconds = targetAngle (m_anim c)"
    using assms(2,4) by (simp add: advancedAngle_def min_def)
  then have fin: "finishes (m_anim c) deltaSeconds" by (simp add: finishes_def)
  show ?thesis
    by (simp add: update_active[OF assms(1)] fin adv applyRotationDiscrete_def Let_def
          startNextInQueue_def assms(3) split: option.splits)
qed

lemma update_plays_move:
  assumes "m_queue c = []"
    and "\<bar>targetAngle (m_anim (startParsedMove face amount prime c))\<bar>
           \<le> speedDeg (m_anim c) * deltaSeconds"
  shows "update deltaSeconds (startParsedMove face amount prime c) = playMove face amount prime c"
proof -
  let ?c = "startParsedMove face amount prime c"
  have "active (m_anim ?c)" "currentAngle (m_anim ?c) = 0" "m_queue ?c = []"
    "speedDeg (m_anim ?c) = speedDeg (m_anim c)"
    using assms(1) by (simp_all add: startParsedMove_def Let_def)
  with assms(2) show ?thesis
    by (simp add: update_completes playMove_def Let_def)
qed

lemma startParsedMove_queue [simp]:
  "m_queue (startParsedMove face amount prime c) = m_queue c"
  by (simp add: startParsedMove_def Let_def)

lemma applyRotationDiscrete_frame:
  "applyRotationDiscrete ax lay angleDeg c = Some c' \<Longrightarrow>
     m_anim c' = m_anim c \<and> m_queue c' = m_queue c"
  by (auto simp: applyRotationDiscrete_def Let_def split: option.splits)

text \<open>
  C7. After every sequence of operations on a constructed core, getStickerColors returns the
  same 54 colours as immediately after construction: in creation order U, R, F, D, L, B with
  9 stickers each, white, green, red, yellow, blue and orange. This holds whatever the
  symbols and elapsed times are, for every rounding of the tick's arithmetic and every value
  that a conversion of NaN to int yields.
\<close>

theorem sticker_colors_fixed:
  "getStickerColors (runF rnd nanInt ops (Core_new cubieSize gap speed))
     = getStickerColors (Core_new cubieSize gap speed)
   \<and> getStickerColors (runF rnd nanInt ops (Core_new cubieSize gap speed)) =
        replicate 9 (1, 1, 1) @ replicate 9 (5 / 100, 7 / 10, 5 / 100)
        @ replicate 9 (8 / 10, 5 / 100, 5 / 100) @ replicate 9 (1, 1, 0)
        @ replicate 9 (5 / 100, 15 / 100, 9 / 10) @ replicate 9 (1, 5 / 10, 0)
   \<and> length (getStickerColors (runF rnd nanInt ops (Core_new cubieSize gap speed))) = 54"
proof -
  have e: "getStickerColors (runF rnd nanInt ops (Core_new cubieSize gap speed))
             = getStickerColors (Core_new cubieSize gap speed)"
    by (rule runF_color)
  show ?thesis
    unfolding e using initial_colors[of cubieSize gap speed] by simp
qed

theorem sticker_colors_fixed_witness:
  "getStickerColors (runF (\<lambda>x. x) (- 2147483648) [QueueMove '' '', Update 0, Update 1,
        StartMoveImmediate ''R2'', Update (1 / 8), ClearQueue, QueueMove ''x'', Update 3]
      (Core_new 1 (3 / 100) 720)) =
     replicate 9 (1, 1, 1) @ replicate 9 (5 / 100, 7 / 10, 5 / 100)
     @ replicate 9 (8 / 10, 5 / 100, 5 / 100) @ replicate 9 (1, 1, 0)
     @ replicate 9 (5 / 100, 15 / 100, 9 / 10) @ replicate 9 (1, 5 / 10, 0)"
  using sticker_colors_fixed[of "\<lambda>x. x" "- 2147483648" "[QueueMove '' '', Update 0, Update 1,
        StartMoveImmediate ''R2'', Update (1 / 8), ClearQueue, QueueMove ''x'', Update 3]"
      1 "3 / 100" 720]
  by blast

section \<open>The animation tick\<close>



lemma applyRotationDiscreteF_anim [simp]:
  "m_anim (applyRotationDiscreteF nanInt ax lay angleDeg c) = m_anim c"
  by (simp add: applyRotationDiscreteF_def Let_def)

lemma updateF_active:
  assumes "active (m_anim c)"
  shows "updateF rnd nanInt deltaSeconds c =
     (if finishesF rnd (m_anim c) deltaSeconds then
        startNextInQueue
          ((applyRotationDiscreteF nanInt (axis (m_anim c)) (layer (m_anim c))
              (targetAngle (m_anim c))
              (c\<lparr>m_anim := (m_anim c)
                   \<lparr>currentAngle := advancedAngleF rnd (m_anim c) deltaSeconds\<rparr>\<rparr>))
           \<lparr>m_anim := (m_anim c)
                \<lparr>currentAngle := advancedAngleF rnd (m_anim c) deltaSeconds\<rparr>
                \<lparr>active := False, currentAngle := 0\<rparr>\<rparr>)
      else c\<lparr>m_anim := (m_anim c)
               \<lparr>currentAngle := advancedAngleF rnd (m_anim c) deltaSeconds\<rparr>\<rparr>)"
  using assms
  by (simp add: updateF_def Let_def finishesF_def advancedAngleF_def)

lemma FLT_pos: "0 < FLT_1EM3" "0 < FLT_1EM4"
  by (simp_all add: FLT_1EM3_def FLT_1EM4_def)



text \<open>
  Where the remaining angle is representable, adding it to the current angle gives the
  target angle, if that is representable.
\<close>

lemma landsOnTarget_exact:
  assumes "angleWithinTarget an" "rnd (targetAngle an) = targetAngle an"
    and "rnd (targetAngle an - currentAngle an) = targetAngle an - currentAngle an"
  shows "landsOnTarget rnd an"
  using assms by (auto simp: landsOnTarget_def angleWithinTarget_def)

text \<open>
  The rounding decides the completion test. At speed 1 and angle 64 of a quarter turn, a
  tick of 13630963 / 524288 seconds (25.99899864 in single precision) gives the sum
  89.99899864..., which single precision rounds to 11796349 / 131072 = 89.99900055: its
  distance to 90 is below \<open>1e-3f\<close> and the move completes, whereas the distance of the
  exact sum is above one thousandth.
\<close>

lemma finishesF_rounded_sum:
  assumes "rnd (13630963 / 524288) = 13630963 / 524288" "rnd 26 = 26"
    and "rnd (47185395 / 524288) = 11796349 / 131072"
    and "rnd (- (131 / 131072)) = - (131 / 131072)"
  shows "finishesF rnd \<lparr>active = True, axis = (1, 0, 0), layer = 1, targetAngle = 90,
            currentAngle = 64, speedDeg = 1\<rparr> (13630963 / 524288)
         \<and> \<not> finishes \<lparr>active = True, axis = (1, 0, 0), layer = 1, targetAngle = 90,
            currentAngle = 64, speedDeg = 1\<rparr> (13630963 / 524288)"
proof -
  let ?an = "\<lparr>active = True, axis = (1, 0, 0), layer = 1, targetAngle = 90,
            currentAngle = 64, speedDeg = 1\<rparr>"
  have adv: "advancedAngleF rnd ?an (13630963 / 524288) = 11796349 / 131072"
    by (simp add: advancedAngleF_def assms)
  have d: "\<bar>11796349 / 131072 :: real\<bar> - 90 = - (131 / 131072)" by simp
  have "finishesF rnd ?an (13630963 / 524288)"
    unfolding finishesF_def adv by (simp add: d assms(4) FLT_1EM3_def)
  moreover have "\<not> finishes ?an (13630963 / 524288)"
    by (simp add: finishes_def advancedAngle_def)
  ultimately show ?thesis by blast
qed

text \<open>
  A started move whose whole angle fits into one tick is played by that tick, as in the
  embedding with exact arithmetic, when the target angle is representable.
\<close>

lemma updateF_completes:
  assumes "active (m_anim c)" "currentAngle (m_anim c) = 0" "m_queue c = []"
    and "rnd 0 = 0" "rnd (targetAngle (m_anim c)) = targetAngle (m_anim c)"
    and "\<bar>targetAngle (m_anim c)\<bar> \<le> rnd (speedDeg (m_anim c) * deltaSeconds)"
  shows "updateF rnd nanInt deltaSeconds c =
           (applyRotationDiscreteF nanInt (axis (m_anim c)) (layer (m_anim c))
              (targetAngle (m_anim c)) c)
           \<lparr>m_anim := (m_anim c)\<lparr>active := False, currentAngle := 0\<rparr>\<rparr>"
proof -
  have adv: "advancedAngleF rnd (m_anim c) deltaSeconds = targetAngle (m_anim c)"
    using assms(2,5,6) by (simp add: advancedAngleF_def min_def)
  then have fin: "finishesF rnd (m_anim c) deltaSeconds"
    using FLT_pos(1) by (simp add: finishesF_def assms(4))
  show ?thesis
    by (simp add: updateF_active[OF assms(1)] fin adv applyRotationDiscreteF_def Let_def
          startNextInQueue_def assms(3))
qed

lemma updateF_plays_move:
  assumes "m_queue c = []" "rnd 0 = 0"
    and "rnd (targetAngle (m_anim (startParsedMove face amount prime c)))
           = targetAngle (m_anim (startParsedMove face amount prime c))"
    and "\<bar>targetAngle (m_anim (startParsedMove face amount prime c))\<bar>
           \<le> rnd (speedDeg (m_anim c) * deltaSeconds)"
    and "playMove face amount prime c = Some c'"
  shows "updateF rnd nanInt deltaSeconds (startParsedMove face amount prime c) = c'"
proof -
  let ?c = "startParsedMove face amount prime c"
  have s: "active (m_anim ?c)" "currentAngle (m_anim ?c) = 0" "m_queue ?c = []"
    "speedDeg (m_anim ?c) = speedDeg (m_anim c)"
    using assms(1) by (simp_all add: startParsedMove_def Let_def)
  from assms(5) obtain d where
    d: "applyRotationDiscrete (axis (m_anim ?c)) (layer (m_anim ?c)) (targetAngle (m_anim ?c)) ?c
          = Some d"
    and c': "c' = d\<lparr>m_anim := (m_anim d)\<lparr>active := False, currentAngle := 0\<rparr>\<rparr>"
    by (auto simp: playMove_def Let_def split: option.splits)
  have e: "m_anim d = m_anim ?c"
    using d by (auto simp: applyRotationDiscrete_def Let_def split: option.splits)
  have "updateF rnd nanInt deltaSeconds ?c =
          (applyRotationDiscreteF nanInt (axis (m_anim ?c)) (layer (m_anim ?c))
              (targetAngle (m_anim ?c)) ?c)
           \<lparr>m_anim := (m_anim ?c)\<lparr>active := False, currentAngle := 0\<rparr>\<rparr>"
    using assms(3,4) by (intro updateF_completes s(1,2,3) assms(2)) (simp_all add: s(4))
  then show ?thesis
    unfolding applyRotationDiscrete_total[OF d] c' e by simp
qed




section \<open>Whitespace symbols and the zero axis\<close>

lemma rotateStickers_zero_axis:
  assumes "\<exists>s\<in>set ss. layerCoord ax (cubePos s) = lay"
  shows "rotateStickers None ax lay ss = None"
  using assms by (induction ss) (auto simp: rotateSticker_def split: option.splits)

lemma layerCoord_zero: "layerCoord (0, 0, 0) cp = snd (snd cp)"
  by (cases cp) (simp add: layerCoord_def)

lemma applyRotationDiscrete_zero_axis:
  assumes "\<exists>s\<in>set (m_stickers c). snd (snd (cubePos s)) = 0"
  shows "applyRotationDiscrete (0, 0, 0) 0 angleDeg c = None"
  using rotateStickers_zero_axis[of "m_stickers c" "(0, 0, 0)" 0] assms
  by (simp add: applyRotationDiscrete_def normalize_zero layerCoord_zero)

lemma startParsedMove_NUL:
  "startParsedMove (CHR 0x00) 1 False c =
     c\<lparr>m_anim := (m_anim c)\<lparr>active := True, axis := (0, 0, 0), layer := 0,
                             targetAngle := 90, currentAngle := 0\<rparr>\<rparr>"
  by (simp add: startParsedMove_def)

lemma matrices_zero_axis:
  "getStickerModelMatrices (startParsedMove (CHR 0x00) 1 False c) =
     map (\<lambda>s. if snd (snd (cubePos s)) = 0 then None else baseModel s) (m_stickers c)"
  by (simp add: startParsedMove_NUL getStickerModelMatrices_def normalize_zero layerCoord_zero
        Let_def)

lemma stripped_ws: "\<forall>ch\<in>set w. isspace ch \<Longrightarrow> stripped w = []"
  by (induction w) (auto simp: stripped_def)

lemma parseMove_ws:
  assumes "w \<noteq> []" "\<forall>ch\<in>set w. isspace ch"
  shows "parseMove w = Some (CHR 0x00, 1, False)"
  using stripped_ws[OF assms(2)] assms(1)
  by (simp add: parseMove_def stripped_def char_at_def toupper_def)

lemma nth_initial_1:
  "buildInitialStickers cs sp ! 1 = initialSticker cs sp (CHR ''U'') (- 1) 0"
  by (simp add: buildInitialStickers_def FACE_ORDER_def)

lemma length_initial: "length (buildInitialStickers cs sp) = 54"
  by (simp add: buildInitialStickers_def FACE_ORDER_def)

lemma initialSticker_U:
  "cubePos (initialSticker cs sp (CHR ''U'') (- 1) 0) = (- 1, 1, 0)"
  "baseModel (initialSticker cs sp (CHR ''U'') (- 1) 0) \<noteq> None"
  by (simp_all add: initialSticker_def rebuildBaseModel_def initialPos_def faceNormal_def
      baseModelOf_def glm_normalize_def orientation_def glm_length_def Let_def)

lemma second_sticker:
  "m_stickers (Core_new 1 (3 / 100) 720) ! Suc 0
     = initialSticker 1 (103 / 100) (CHR ''U'') (- 1) 0"
  "Suc 0 < length (m_stickers (Core_new 1 (3 / 100) 720))"
  using nth_initial_1[of 1 "103 / 100"] by (simp_all add: Core_new_def length_initial)

text \<open>
  C9. Every non-empty string of whitespace is accepted: parseMove strips it to the empty
  string, reads the NUL character at index 0, which strchr finds at the terminator of
  UDLRFB, and returns success; queueMove returns true and enqueues the string; when that
  move starts, startParsedMove activates an animation whose axis is the zero vector. That
  axis is normalised in getStickerModelMatrices and applyRotationDiscrete: normalising it
  gives no vector (NaN), so the matrices of the stickers with cubePos.z = 0 are not numbers,
  and the discrete rotation of a cube with such a sticker has no defined result.
\<close>

theorem whitespace_symbol_accepted:
  assumes "w \<noteq> []" "\<forall>ch\<in>set w. isspace ch"
  shows "stripped w = [] \<and> char_at (stripped w) 0 = CHR 0x00
    \<and> strchr ''UDLRFB'' (CHR 0x00) = Some 6
    \<and> parseMove w = Some (CHR 0x00, 1, False)
    \<and> queueMove w c = (True, c\<lparr>m_queue := m_queue c @ [w]\<rparr>)
    \<and> (\<not> active (m_anim c) \<and> m_queue c = [] \<longrightarrow>
          update deltaSeconds (snd (queueMove w c)) =
            Some (startParsedMove (CHR 0x00) 1 False (c\<lparr>m_queue := []\<rparr>)))
    \<and> active (m_anim (startParsedMove (CHR 0x00) 1 False c))
    \<and> axis (m_anim (startParsedMove (CHR 0x00) 1 False c)) = (0, 0, 0)
    \<and> layer (m_anim (startParsedMove (CHR 0x00) 1 False c)) = 0
    \<and> targetAngle (m_anim (startParsedMove (CHR 0x00) 1 False c)) = 90
    \<and> glm_normalize (axis (m_anim (startParsedMove (CHR 0x00) 1 False c))) = None
    \<and> getStickerModelMatrices (startParsedMove (CHR 0x00) 1 False c) =
         map (\<lambda>s. if snd (snd (cubePos s)) = 0 then None else baseModel s) (m_stickers c)
    \<and> ((\<exists>s\<in>set (m_stickers c). snd (snd (cubePos s)) = 0) \<longrightarrow>
          applyRotationDiscrete (axis (m_anim (startParsedMove (CHR 0x00) 1 False c)))
            (layer (m_anim (startParsedMove (CHR 0x00) 1 False c)))
            (targetAngle (m_anim (startParsedMove (CHR 0x00) 1 False c)))
            (startParsedMove (CHR 0x00) 1 False c) = None
          \<and> playMove (CHR 0x00) 1 False c = None)"
proof -
  note p = parseMove_ws[OF assms]
  have q: "queueMove w c = (True, c\<lparr>m_queue := m_queue c @ [w]\<rparr>)"
    by (simp add: queueMove_def p)
  have u: "update deltaSeconds (snd (queueMove w c)) =
            Some (startParsedMove (CHR 0x00) 1 False (c\<lparr>m_queue := []\<rparr>))"
    if "\<not> active (m_anim c) \<and> m_queue c = []"
    using that by (simp add: q update_def startNextInQueue_def p)
  have z: "applyRotationDiscrete (axis (m_anim (startParsedMove (CHR 0x00) 1 False c)))
            (layer (m_anim (startParsedMove (CHR 0x00) 1 False c)))
            (targetAngle (m_anim (startParsedMove (CHR 0x00) 1 False c)))
            (startParsedMove (CHR 0x00) 1 False c) = None
          \<and> playMove (CHR 0x00) 1 False c = None"
    if "\<exists>s\<in>set (m_stickers c). snd (snd (cubePos s)) = 0"
    using applyRotationDiscrete_zero_axis[of "startParsedMove (CHR 0x00) 1 False c" 90] that
    by (simp add: playMove_def startParsedMove_NUL)
  have s: "stripped w = [] \<and> char_at (stripped w) 0 = CHR 0x00
    \<and> strchr ''UDLRFB'' (CHR 0x00) = Some 6"
    using stripped_ws[OF assms(2)] by (simp add: char_at_def)
  have m: "active (m_anim (startParsedMove (CHR 0x00) 1 False c))
    \<and> axis (m_anim (startParsedMove (CHR 0x00) 1 False c)) = (0, 0, 0)
    \<and> layer (m_anim (startParsedMove (CHR 0x00) 1 False c)) = 0
    \<and> targetAngle (m_anim (startParsedMove (CHR 0x00) 1 False c)) = 90
    \<and> glm_normalize (axis (m_anim (startParsedMove (CHR 0x00) 1 False c))) = None"
    by (simp add: startParsedMove_NUL normalize_zero)
  from s p q u z m matrices_zero_axis[of c] show ?thesis by blast
qed

theorem whitespace_symbol_accepted_witness:
  "parseMove '' '' = Some (CHR 0x00, 1, False)
   \<and> queueMove '' '' (Core_new 1 (3 / 100) 720) =
       (True, (Core_new 1 (3 / 100) 720)
                \<lparr>m_queue := m_queue (Core_new 1 (3 / 100) 720) @ ['' '']\<rparr>)
   \<and> update 0 (snd (queueMove '' '' (Core_new 1 (3 / 100) 720))) =
       Some (startParsedMove (CHR 0x00) 1 False ((Core_new 1 (3 / 100) 720)\<lparr>m_queue := []\<rparr>))
   \<and> playMove (CHR 0x00) 1 False (Core_new 1 (3 / 100) 720) = None"
proof -
  let ?init = "Core_new 1 (3 / 100) 720"
  have w: "'' '' \<noteq> []" "\<forall>ch\<in>set '' ''. isspace ch" by (simp_all add: isspace_def)
  have i: "\<not> active (m_anim ?init) \<and> m_queue ?init = []" by (simp add: Core_new_def)
  have "m_stickers ?init ! Suc 0 \<in> set (m_stickers ?init)"
    using second_sticker(2) by (rule nth_mem)
  moreover have "snd (snd (cubePos (m_stickers ?init ! Suc 0))) = 0"
    by (simp add: second_sticker(1) initialSticker_U)
  ultimately have e: "\<exists>s\<in>set (m_stickers ?init). snd (snd (cubePos s)) = 0" by blast
  from whitespace_symbol_accepted[OF w, of ?init 0] i e show ?thesis by blast
qed

section \<open>Matrices at the start of an animation\<close>

lemma angleAxis_zero: "glm_angleAxis (glm_radians 0) a = (1, 0, 0, 0)"
  by (cases a) (simp add: glm_angleAxis_def glm_radians_def)

lemma toMat4_unit: "glm_toMat4 (1, 0, 0, 0) = mat_identity"
  by (simp add: mat_identity_def)

lemma translate_there_and_back:
  "mat_mul (mat_mul (mat_mul (glm_translate mat_identity v) mat_identity)
     (glm_translate mat_identity (vneg v))) M = M"
proof -
  obtain x y z where v: "v = (x, y, z)" by (cases v)
  obtain a0 a1 a2 a3 b0 b1 b2 b3 c0 c1 c2 c3 d0 d1 d2 d3 where
    M: "M = ((a0, a1, a2, a3), (b0, b1, b2, b3), (c0, c1, c2, c3), (d0, d1, d2, d3))"
    by (metis prod.exhaust)
  show ?thesis by (simp add: v M mat_identity_def)
qed

text \<open>
  For an animation whose axis can be normalised, as every move on a face letter has, the
  matrices at current angle 0 are the base models.
\<close>

lemma matrices_at_zero:
  assumes "active (m_anim c)" "currentAngle (m_anim c) = 0"
    and "glm_normalize (axis (m_anim c)) \<noteq> None"
  shows "getStickerModelMatrices c = map baseModel (m_stickers c)"
proof -
  from assms(3) obtain a where a: "glm_normalize (axis (m_anim c)) = Some a" by auto
  show ?thesis
    by (simp add: getStickerModelMatrices_def Let_def assms(1,2) a angleAxis_zero toMat4_unit
          translate_there_and_back split: option.splits
          del: glm_toMat4.simps mat_mul.simps glm_translate.simps mat_vec.simps)
qed

text \<open>
  C8. The claim is that whenever an animation is active with current angle 0,
  getStickerModelMatrices returns the base model of every sticker. The code breaks it for
  the animation that a whitespace symbol starts: after queueMove of a single space and one
  update the animation is active at angle 0 with the zero axis, and the matrix returned for
  the second sticker (cubePos (-1, 1, 0)) is not a number, while its base model is a matrix.
\<close>

theorem whitespace_move_matrices:
  "queueMove '' '' (Core_new 1 (3 / 100) 720) =
     (True, (Core_new 1 (3 / 100) 720)\<lparr>m_queue := ['' '']\<rparr>)
   \<and> update 0 ((Core_new 1 (3 / 100) 720)\<lparr>m_queue := ['' '']\<rparr>) =
       Some (startParsedMove (CHR 0x00) 1 False (Core_new 1 (3 / 100) 720))
   \<and> active (m_anim (startParsedMove (CHR 0x00) 1 False (Core_new 1 (3 / 100) 720)))
   \<and> currentAngle (m_anim (startParsedMove (CHR 0x00) 1 False (Core_new 1 (3 / 100) 720))) = 0
   \<and> getStickerModelMatrices (startParsedMove (CHR 0x00) 1 False (Core_new 1 (3 / 100) 720)) ! 1
       = None
   \<and> baseModel (m_stickers (startParsedMove (CHR 0x00) 1 False (Core_new 1 (3 / 100) 720)) ! 1)
       \<noteq> None"
proof -
  have p: "parseMove '' '' = Some (CHR 0x00, 1, False)"
    by (rule parseMove_ws) (simp_all add: isspace_def)
  have q: "queueMove '' '' (Core_new 1 (3 / 100) 720) =
     (True, (Core_new 1 (3 / 100) 720)\<lparr>m_queue := ['' '']\<rparr>)"
    by (simp add: queueMove_def p Core_new_def)
  have u: "update 0 ((Core_new 1 (3 / 100) 720)\<lparr>m_queue := ['' '']\<rparr>) =
       Some (startParsedMove (CHR 0x00) 1 False (Core_new 1 (3 / 100) 720))"
    by (simp add: update_def startNextInQueue_def p Core_new_def)
  have a: "active (m_anim (startParsedMove (CHR 0x00) 1 False (Core_new 1 (3 / 100) 720)))
   \<and> currentAngle (m_anim (startParsedMove (CHR 0x00) 1 False (Core_new 1 (3 / 100) 720))) = 0"
    by (simp add: startParsedMove_NUL)
  have m: "getStickerModelMatrices (startParsedMove (CHR 0x00) 1 False (Core_new 1 (3 / 100) 720))
             ! Suc 0 = None"
    unfolding matrices_zero_axis using second_sticker(2)
    by (simp add: second_sticker(1) initialSticker_U)
  have b: "baseModel (m_stickers (startParsedMove (CHR 0x00) 1 False (Core_new 1 (3 / 100) 720))
             ! Suc 0) \<noteq> None"
    by (simp add: second_sticker(1) initialSticker_U)
  from q u a m b show ?thesis unfolding One_nat_def by blast
qed

end
